theory Spec2Isabelle
  imports Main
begin

section \<open>Support view for course entitlements\<close>

text \<open>
  Embedding of \<^verbatim>\<open>lms/djangoapps/support/views/course_entitlements.py\<close>.
  The ORM tables the view touches are lists of rows, carried in an explicit world state
  together with a log of the statements of the reinstatement path in the order in which
  they run. Python exceptions are the left summand of every result. The handlers are
  modelled from the point where the permission decorator has let the request through.
  The values of \<^verbatim>\<open>request.data\<close> are strings, and a key that is absent reads as
  \<^verbatim>\<open>None\<close>. An entitlement is identified by its \<^verbatim>\<open>uuid\<close>, which is unique in the table.
\<close>

subsection \<open>Data\<close>

text \<open>
  The model classes are declared in modules outside this file; each record has the fields
  that the view reads, writes or passes on creation. A support detail refers to its
  entitlement by the entitlement's \<^verbatim>\<open>uuid\<close>.
\<close>

type_synonym user = string
type_synonym course_key = string
type_synonym timestamp = nat

record CourseOverview =
  course_id :: course_key

record CourseEnrollment =
  enrollment_user :: user
  enrollment_course :: CourseOverview

record CourseEntitlement =
  uuid :: string
  entitlement_user :: user
  course_uuid :: string
  mode :: string
  expired_at :: "timestamp option"
  enrollment_course_run :: "CourseEnrollment option"

record CourseEntitlementSupportDetail =
  detail_entitlement :: string
  detail_reason :: string
  detail_comments :: "string option"
  detail_unenrolled_run :: "CourseOverview option"
  detail_support_user :: user

record auth_user =
  auth_username :: string
  auth_email :: string

datatype exn =
    DatabaseError
  | NameError string
  | AttributeError string
  | MultipleObjectsReturned
  | KeyError string
  | ValueError string
  | UnicodeEncodeError
  | UnicodeDecodeError
  | IOError
  | OSError

datatype 'd http_result =
    Response nat 'd
  | HttpResponseBadRequest string
  | NoResponse

text \<open>
  One entry per statement of \<^verbatim>\<open>unexpire_entitlement\<close> and per row written, in
  execution order: attribute reads and assignments on the in-memory entitlement, the call
  to the enrollment collaborator, and the two writes to the store.
\<close>

datatype event =
    ReadCourseRun CourseOverview
  | SetExpiredAt "timestamp option"
  | ReadLearner user
  | Unenroll user course_key bool
  | SetEnrollmentCourseRun "CourseEnrollment option"
  | Save CourseEntitlement
  | Create CourseEntitlementSupportDetail

record world =
  entitlements :: "CourseEntitlement list"
  support_details :: "CourseEntitlementSupportDetail list"
  events :: "event list"

text \<open>The storage operations that may raise \<^verbatim>\<open>DatabaseError\<close>.\<close>

datatype db_op = OpUnenroll | OpSave | OpCreate | OpCommit

text \<open>
  What the view takes from modules outside this file: the reason constant of the
  support-detail model, the text form of an entitlement, the serializer, the users
  table, and which storage operations fail during the request.
\<close>

record 'd env =
  LEAVE_SESSION :: string
  format_entitlement :: "CourseEntitlement \<Rightarrow> string"
  serializer_data :: "CourseEntitlement \<Rightarrow> 'd"
  users :: "auth_user list"
  db_error :: "db_op \<Rightarrow> bool"

record request =
  request_user :: user
  request_data :: "string \<rightharpoonup> string"

subsection \<open>Helpers\<close>

definition HTTP_201_CREATED :: nat where
  "HTTP_201_CREATED = 201"

text \<open>Python's \<^verbatim>\<open>not v\<close> for a value that is \<^verbatim>\<open>None\<close> or a string.\<close>

definition falsy :: "string option \<Rightarrow> bool" where
  "falsy v = (case v of None \<Rightarrow> True | Some s \<Rightarrow> s = [])"

text \<open>What \<^verbatim>\<open>format\<close> inserts for such a value.\<close>

definition format_value :: "string option \<Rightarrow> string" where
  "format_value v = (case v of None \<Rightarrow> ''None'' | Some s \<Rightarrow> s)"

definition emit :: "event \<Rightarrow> world \<Rightarrow> world" where
  "emit ev w = w\<lparr>events := events w @ [ev]\<rparr>"

text \<open>
  Modelled from the spec: the entitlement table, whose model class
  (\<^verbatim>\<open>entitlements.models.CourseEntitlement\<close>) is not part of the sources at hand. For
  \<^verbatim>\<open>CourseEntitlement.objects.get(uuid=...)\<close> an identifier resolves to the existing
  entitlement that carries it, or to none, which is \<^verbatim>\<open>DoesNotExist\<close> (\<open>None\<close> here).
\<close>

definition objects_get :: "string option \<Rightarrow> CourseEntitlement list \<Rightarrow> CourseEntitlement option" where
  "objects_get u rows = find (\<lambda>r. Some (uuid r) = u) rows"

definition write_row :: "CourseEntitlement \<Rightarrow> CourseEntitlement list \<Rightarrow> CourseEntitlement list" where
  "write_row e rows = map (\<lambda>r. if uuid r = uuid e then e else r) rows"

text \<open>
  Modelled from the spec: \<^verbatim>\<open>entitlement.save()\<close> persists the entitlement, that is, its
  row takes the values of the object in memory; as a storage operation it may fail.
\<close>

definition save :: "'d env \<Rightarrow> CourseEntitlement \<Rightarrow> world \<Rightarrow> (exn + unit) \<times> world" where
  "save env e w =
     (if db_error env OpSave then (Inl DatabaseError, w)
      else (Inr (), emit (Save e) (w\<lparr>entitlements := write_row e (entitlements w)\<rparr>)))"

text \<open>
  Modelled from the spec: \<^verbatim>\<open>CourseEntitlementSupportDetail.objects.create(...)\<close> adds one
  support detail (the audit record) to those that exist; as a storage operation it may
  fail.
\<close>

definition objects_create ::
  "'d env \<Rightarrow> CourseEntitlementSupportDetail \<Rightarrow> world \<Rightarrow> (exn + unit) \<times> world" where
  "objects_create env d w =
     (if db_error env OpCreate then (Inl DatabaseError, w)
      else (Inr (), emit (Create d) (w\<lparr>support_details := support_details w @ [d]\<rparr>)))"

text \<open>
  Modelled from the spec: \<^verbatim>\<open>CourseEnrollment.unenroll(user, course_id, skip_refund)\<close> of
  \<^verbatim>\<open>student.models\<close>, the external enrollment collaborator. The call is recorded with
  its arguments; what it does to the enrollment is outside this model; it may fail as a
  storage operation does.
\<close>

definition unenroll :: "'d env \<Rightarrow> user \<Rightarrow> course_key \<Rightarrow> bool \<Rightarrow> world \<Rightarrow> (exn + unit) \<times> world" where
  "unenroll env learner course skip_refund w =
     (if db_error env OpUnenroll then Inl DatabaseError else Inr (),
      emit (Unenroll learner course skip_refund) w)"

text \<open>
  \<^verbatim>\<open>with transaction.atomic()\<close> of Django: when the block raises, or the commit does, both
  tables are as they were on entry and the exception goes on to the caller; the log of
  what ran is history and stays.
\<close>

definition rollback :: "world \<Rightarrow> world \<Rightarrow> world" where
  "rollback w0 w = w\<lparr>entitlements := entitlements w0, support_details := support_details w0\<rparr>"

definition atomic ::
  "'d env \<Rightarrow> (world \<Rightarrow> (exn + 'a) \<times> world) \<Rightarrow> world \<Rightarrow> (exn + 'a) \<times> world" where
  "atomic env body w =
     (case body w of
        (Inl e, w') \<Rightarrow> (Inl e, rollback w w')
      | (Inr v, w') \<Rightarrow>
          if db_error env OpCommit then (Inl DatabaseError, rollback w w') else (Inr v, w'))"

subsection \<open>The view\<close>

definition unexpire_entitlement ::
  "'d env \<Rightarrow> CourseEntitlement \<Rightarrow> world \<Rightarrow> (exn + CourseOverview \<times> CourseEntitlement) \<times> world" where
  "unexpire_entitlement env entitlement w =
     (case enrollment_course_run entitlement of
        None \<Rightarrow> (Inl (AttributeError ''course''), w)
      | Some run \<Rightarrow>
          let unenrolled_run = enrollment_course run;
              w1 = emit (ReadCourseRun unenrolled_run) w;
              e1 = entitlement\<lparr>expired_at := None\<rparr>;
              w2 = emit (SetExpiredAt None) w1;
              learner = enrollment_user run;
              w3 = emit (ReadLearner learner) w2
          in case unenroll env learner (course_id unenrolled_run) True w3 of
               (Inl e, w4) \<Rightarrow> (Inl e, w4)
             | (Inr _, w4) \<Rightarrow>
                 let e2 = e1\<lparr>enrollment_course_run := None\<rparr>;
                     w5 = emit (SetEnrollmentCourseRun None) w4
                 in case save env e2 w5 of
                      (Inl e, w6) \<Rightarrow> (Inl e, w6)
                    | (Inr _, w6) \<Rightarrow> (Inr (unenrolled_run, e2), w6))"

text \<open>The body of the \<^verbatim>\<open>with\<close> block of \<^verbatim>\<open>_reinstate_entitlement\<close>.\<close>

definition reinstate_block ::
  "'d env \<Rightarrow> user \<Rightarrow> CourseEntitlement \<Rightarrow> string option \<Rightarrow> world \<Rightarrow> (exn + CourseEntitlement) \<times> world" where
  "reinstate_block env support_user entitlement comments w =
     (case unexpire_entitlement env entitlement w of
        (Inl e, w1) \<Rightarrow> (Inl e, w1)
      | (Inr (unenrolled_run, entitlement'), w1) \<Rightarrow>
          (case objects_create env
                  \<lparr>detail_entitlement = uuid entitlement',
                   detail_reason = LEAVE_SESSION env,
                   detail_comments = comments,
                   detail_unenrolled_run = Some unenrolled_run,
                   detail_support_user = support_user\<rparr> w1 of
             (Inl e, w2) \<Rightarrow> (Inl e, w2)
           | (Inr _, w2) \<Rightarrow> (Inr entitlement', w2)))"

text \<open>
  \<^verbatim>\<open>_reinstate_entitlement\<close> (an Isabelle name cannot start with an underscore). The
  handler of \<^verbatim>\<open>DatabaseError\<close> formats its message from \<^verbatim>\<open>course_uuid\<close> and
  \<^verbatim>\<open>username_or_email\<close>, which are bound neither in the method nor in the module:
  evaluating the first raises \<^verbatim>\<open>NameError\<close>.
\<close>

definition reinstate_entitlement ::
  "'d env \<Rightarrow> user \<Rightarrow> CourseEntitlement \<Rightarrow> string option \<Rightarrow> world \<Rightarrow> (exn + 'd http_result) \<times> world" where
  "reinstate_entitlement env support_user entitlement comments w =
     (case enrollment_course_run entitlement of
        None \<Rightarrow>
          (Inr (HttpResponseBadRequest
                  (''Entitlement '' @ format_entitlement env entitlement @ '' has not been spent on a course run.'')), w)
      | Some _ \<Rightarrow>
          (case atomic env (reinstate_block env support_user entitlement comments) w of
             (Inr entitlement', w') \<Rightarrow>
               (Inr (Response HTTP_201_CREATED (serializer_data env entitlement')), w')
           | (Inl DatabaseError, w') \<Rightarrow> (Inl (NameError ''course_uuid''), w')
           | (Inl e, w') \<Rightarrow> (Inl e, w')))"

definition update :: "'d env \<Rightarrow> request \<Rightarrow> world \<Rightarrow> (exn + 'd http_result) \<times> world" where
  "update env request w =
     (let support_user = request_user request;
          entitlement_uuid = request_data request ''entitlement_uuid''
      in if falsy entitlement_uuid
         then (Inr (HttpResponseBadRequest (''The field '' @ ''entitlement_uuid'' @ '' is required.'')), w)
         else
           let reason = request_data request ''reason''
           in if falsy reason
              then (Inr (HttpResponseBadRequest (''The field '' @ ''reason'' @ '' is required.'')), w)
              else
                let comments = request_data request ''comments''
                in case objects_get entitlement_uuid (entitlements w) of
                     None \<Rightarrow>
                       (Inr (HttpResponseBadRequest
                               (''Could not find entitlement '' @ format_value entitlement_uuid @ '' for update'')), w)
                   | Some entitlement \<Rightarrow>
                       if reason = Some (LEAVE_SESSION env)
                       then reinstate_entitlement env support_user entitlement comments w
                       else (Inr NoResponse, w))"

definition REQUIRED_CREATION_FIELDS :: "string list" where
  "REQUIRED_CREATION_FIELDS = [''username_or_email'', ''course_uuid'', ''reason'', ''mode'']"

text \<open>The loop of \<^verbatim>\<open>create\<close> over the required fields, from the empty string.\<close>

fun missing_fields :: "(string \<rightharpoonup> string) \<Rightarrow> string list \<Rightarrow> string \<Rightarrow> string" where
  "missing_fields data [] missing_fields_string = missing_fields_string"
| "missing_fields data (field # rest) missing_fields_string =
     missing_fields data rest
       (if falsy (data field) then missing_fields_string @ '' '' @ field else missing_fields_string)"

text \<open>
  \<^verbatim>\<open>User.objects.get(Q(username=v) | Q(email=v))\<close>: no row is \<^verbatim>\<open>DoesNotExist\<close>
  (\<open>Inr None\<close>), more than one is \<^verbatim>\<open>MultipleObjectsReturned\<close>.
\<close>

definition user_get :: "auth_user list \<Rightarrow> string option \<Rightarrow> exn + auth_user option" where
  "user_get rows v =
     (case filter (\<lambda>u. Some (auth_username u) = v \<or> Some (auth_email u) = v) rows of
        [] \<Rightarrow> Inr None
      | [u] \<Rightarrow> Inr (Some u)
      | _ \<Rightarrow> Inl MultipleObjectsReturned)"

text \<open>
  \<^verbatim>\<open>create\<close>. What follows the two validations (the insert of the entitlement and of
  its support detail, through models that are not part of this file) is the parameter
  \<open>grant\<close>.
\<close>

definition create ::
  "'d env \<Rightarrow> (user \<Rightarrow> string option \<Rightarrow> auth_user \<Rightarrow> (string \<rightharpoonup> string) \<Rightarrow> world \<Rightarrow> (exn + 'd http_result) \<times> world)
     \<Rightarrow> request \<Rightarrow> world \<Rightarrow> (exn + 'd http_result) \<times> world" where
  "create env grant request w =
     (let support_user = request_user request;
          comments = request_data request ''comments'';
          creation_fields = request_data request |` set REQUIRED_CREATION_FIELDS;
          missing_fields_string = missing_fields (request_data request) REQUIRED_CREATION_FIELDS ''''
      in if missing_fields_string \<noteq> []
         then (Inr (HttpResponseBadRequest
                      (''The following required fields are missing from the request:'' @ missing_fields_string)), w)
         else
           let username_or_email = creation_fields ''username_or_email''
           in case user_get (users env) username_or_email of
                Inl e \<Rightarrow> (Inl e, w)
              | Inr None \<Rightarrow>
                  (Inr (HttpResponseBadRequest
                          (''Could not find user '' @ format_value username_or_email @ ''.'')), w)
              | Inr (Some u) \<Rightarrow> grant support_user comments u creation_fields w)"

subsection \<open>The order of steps as the specification words it\<close>

text \<open>
  The specification lists the steps of a reinstatement as: read the course run and the
  learner, unenroll, clear the expiry and detach the enrollment, persist, create the
  support detail. \<open>stated_order\<close> is that list, written from the specification only, to
  be compared with the log the view produces.
\<close>

definition stated_order ::
  "CourseEnrollment \<Rightarrow> CourseEntitlement \<Rightarrow> CourseEntitlementSupportDetail \<Rightarrow> event list" where
  "stated_order run saved detail =
     [ReadCourseRun (enrollment_course run), ReadLearner (enrollment_user run),
      Unenroll (enrollment_user run) (course_id (enrollment_course run)) True,
      SetExpiredAt None, SetEnrollmentCourseRun None, Save saved, Create detail]"

subsection \<open>Two requests for one entitlement\<close>

text \<open>
  \<^verbatim>\<open>update\<close> runs in two steps. Lines 50 to 67 check the fields and read the entitlement
  from the table; nothing is written. Line 68 hands the object that was read to
  \<^verbatim>\<open>_reinstate_entitlement\<close>, which tests and changes that object: the method takes no
  lock on the row (there is no \<^verbatim>\<open>select_for_update\<close>) and does not read it again inside
  \<^verbatim>\<open>transaction.atomic\<close>. \<open>update_lookup\<close> is the first step, with the response when the
  request ends there, and \<open>update_finish\<close> is the second.
\<close>

definition update_lookup :: "'d env \<Rightarrow> request \<Rightarrow> world \<Rightarrow> 'd http_result + CourseEntitlement" where
  "update_lookup env request w =
     (let entitlement_uuid = request_data request ''entitlement_uuid''
      in if falsy entitlement_uuid
         then Inl (HttpResponseBadRequest (''The field '' @ ''entitlement_uuid'' @ '' is required.''))
         else
           let reason = request_data request ''reason''
           in if falsy reason
              then Inl (HttpResponseBadRequest (''The field '' @ ''reason'' @ '' is required.''))
              else
                (case objects_get entitlement_uuid (entitlements w) of
                   None \<Rightarrow>
                     Inl (HttpResponseBadRequest
                            (''Could not find entitlement '' @ format_value entitlement_uuid @ '' for update''))
                 | Some entitlement \<Rightarrow>
                     if reason = Some (LEAVE_SESSION env) then Inr entitlement else Inl NoResponse))"

definition update_finish ::
  "'d env \<Rightarrow> request \<Rightarrow> 'd http_result + CourseEntitlement \<Rightarrow> world \<Rightarrow> (exn + 'd http_result) \<times> world" where
  "update_finish env request looked_up w =
     (case looked_up of
        Inl response \<Rightarrow> (Inr response, w)
      | Inr entitlement \<Rightarrow>
          reinstate_entitlement env (request_user request) entitlement (request_data request ''comments'') w)"

text \<open>
  Two requests one after the other: the second starts when the first has committed. The
  result is the two responses and the world after both.
\<close>

definition serial_updates ::
  "'d env \<Rightarrow> request \<Rightarrow> request \<Rightarrow> world \<Rightarrow> (exn + 'd http_result) \<times> (exn + 'd http_result) \<times> world" where
  "serial_updates env request1 request2 w =
     (case update env request1 w of
        (response1, w1) \<Rightarrow>
          (case update env request2 w1 of
             (response2, w2) \<Rightarrow> (response1, response2, w2)))"

text \<open>
  Two requests that overlap: both have read the entitlement before either writes, then
  the first runs its second step and commits, then the second runs its second step on the
  object it holds.
\<close>

definition stale_read_updates ::
  "'d env \<Rightarrow> request \<Rightarrow> request \<Rightarrow> world \<Rightarrow> (exn + 'd http_result) \<times> (exn + 'd http_result) \<times> world" where
  "stale_read_updates env request1 request2 w =
     (let looked_up1 = update_lookup env request1 w;
          looked_up2 = update_lookup env request2 w
      in case update_finish env request1 looked_up1 w of
           (response1, w1) \<Rightarrow>
             (case update_finish env request2 looked_up2 w1 of
                (response2, w2) \<Rightarrow> (response1, response2, w2)))"

text \<open>The calls to \<^verbatim>\<open>CourseEnrollment.unenroll\<close> among the events, in order.\<close>

fun unenroll_calls :: "event list \<Rightarrow> event list" where
  "unenroll_calls [] = []"
| "unenroll_calls (Unenroll learner course skip_refund # evs) =
     Unenroll learner course skip_refund # unenroll_calls evs"
| "unenroll_calls (_ # evs) = unenroll_calls evs"

subsection \<open>Concrete inputs\<close>

text \<open>
  The example of the specification: entitlement \<open>E1\<close> of \<open>alice\<close>, spent on run \<open>R1\<close>,
  expired, and a support agent asking for its reinstatement.
\<close>

definition example_run :: CourseEnrollment where
  "example_run = \<lparr>enrollment_user = ''alice'', enrollment_course = \<lparr>course_id = ''R1''\<rparr>\<rparr>"

definition example_entitlement :: CourseEntitlement where
  "example_entitlement =
     \<lparr>uuid = ''E1'', entitlement_user = ''alice'', course_uuid = ''C1'', mode = ''verified'',
      expired_at = Some 20240101, enrollment_course_run = Some example_run\<rparr>"

definition example_reinstated :: CourseEntitlement where
  "example_reinstated =
     \<lparr>uuid = ''E1'', entitlement_user = ''alice'', course_uuid = ''C1'', mode = ''verified'',
      expired_at = None, enrollment_course_run = None\<rparr>"

definition example_detail :: CourseEntitlementSupportDetail where
  "example_detail =
     \<lparr>detail_entitlement = ''E1'', detail_reason = ''LEAVE'',
      detail_comments = Some ''reinstated per policy'',
      detail_unenrolled_run = Some \<lparr>course_id = ''R1''\<rparr>, detail_support_user = ''support''\<rparr>"

definition example_world :: world where
  "example_world = \<lparr>entitlements = [example_entitlement], support_details = [], events = []\<rparr>"

definition never :: "db_op \<Rightarrow> bool" where
  "never op = False"

definition only :: "db_op \<Rightarrow> db_op \<Rightarrow> bool" where
  "only failing op = (op = failing)"

definition example_env :: "(db_op \<Rightarrow> bool) \<Rightarrow> string env" where
  "example_env failing =
     \<lparr>LEAVE_SESSION = ''LEAVE'', format_entitlement = uuid, serializer_data = uuid, users = [], db_error = failing\<rparr>"

definition example_request :: "string \<Rightarrow> string \<Rightarrow> request" where
  "example_request entitlement_uuid reason =
     \<lparr>request_user = ''support'',
      request_data = [''entitlement_uuid'' \<mapsto> entitlement_uuid, ''reason'' \<mapsto> reason,
                      ''comments'' \<mapsto> ''reinstated per policy'']\<rparr>"

definition empty_request :: request where
  "empty_request = \<lparr>request_user = ''support'', request_data = Map.empty\<rparr>"

definition uuid_only_request :: request where
  "uuid_only_request = \<lparr>request_user = ''support'', request_data = [''entitlement_uuid'' \<mapsto> ''E1'']\<rparr>"

definition example_grant ::
  "user \<Rightarrow> string option \<Rightarrow> auth_user \<Rightarrow> (string \<rightharpoonup> string) \<Rightarrow> world \<Rightarrow> (exn + string http_result) \<times> world" where
  "example_grant support_user comments u creation_fields w = (Inr (Response HTTP_201_CREATED (auth_username u)), w)"

section \<open>Python 2 strings\<close>

text \<open>
  The two remaining modules are Python 2 code, where a string is a byte string
  (\<^verbatim>\<open>str\<close>) or a \<^verbatim>\<open>unicode\<close> string. A string is modelled by its kind and the list of
  its codes: bytes for \<^verbatim>\<open>str\<close>, code points for \<^verbatim>\<open>unicode\<close>. Mixing the two kinds
  converts through the ASCII codec, which raises on a code above 127.
\<close>

type_synonym codepoints = "nat list"

datatype pystring = Str codepoints | Unicode codepoints

text \<open>The codes of an ASCII literal of the source.\<close>

definition ascii :: "string \<Rightarrow> codepoints" where
  "ascii s = map of_char s"

fun codes_of :: "pystring \<Rightarrow> codepoints" where
  "codes_of (Str cs) = cs"
| "codes_of (Unicode cs) = cs"

text \<open>A slice of a string has the kind of the string.\<close>

fun slice_of :: "pystring \<Rightarrow> codepoints \<Rightarrow> pystring" where
  "slice_of (Str _) cs = Str cs"
| "slice_of (Unicode _) cs = Unicode cs"

text \<open>Python's \<^verbatim>\<open>not v\<close> for a value that is \<^verbatim>\<open>None\<close> or a string.\<close>

definition not_truthy :: "pystring option \<Rightarrow> bool" where
  "not_truthy v = (case v of None \<Rightarrow> True | Some s \<Rightarrow> codes_of s = [])"

text \<open>
  An argument of \<^verbatim>\<open>format\<close> on a byte-string template: a byte string goes in as it
  is, a \<^verbatim>\<open>unicode\<close> string is encoded with the ASCII codec.
\<close>

fun encode_ascii :: "pystring \<Rightarrow> exn + codepoints" where
  "encode_ascii (Str cs) = Inr cs"
| "encode_ascii (Unicode cs) =
     (if list_all (\<lambda>c. c < 128) cs then Inr cs else Inl UnicodeEncodeError)"

text \<open>
  A string where \<^verbatim>\<open>unicode\<close> is needed (an argument of \<^verbatim>\<open>format\<close> on a \<^verbatim>\<open>unicode\<close>
  template, an operand of \<open>+\<close> with a \<^verbatim>\<open>unicode\<close> string): a byte string is decoded
  with the ASCII codec.
\<close>

fun decode_ascii :: "pystring \<Rightarrow> exn + codepoints" where
  "decode_ascii (Unicode cs) = Inr cs"
| "decode_ascii (Str cs) =
     (if list_all (\<lambda>c. c < 128) cs then Inr cs else Inl UnicodeDecodeError)"

text \<open>
  \<open>==\<close> on strings: within a kind, equal codes; across kinds the byte string is decoded
  first and a byte string that does not decode is unequal.
\<close>

fun py_eq :: "pystring \<Rightarrow> pystring \<Rightarrow> bool" where
  "py_eq (Str a) (Str b) = (a = b)"
| "py_eq (Unicode a) (Unicode b) = (a = b)"
| "py_eq (Str a) (Unicode b) = (list_all (\<lambda>c. c < 128) a \<and> a = b)"
| "py_eq (Unicode a) (Str b) = (list_all (\<lambda>c. c < 128) b \<and> a = b)"

section \<open>Social links of the account settings\<close>

text \<open>
  Embedding of \<^verbatim>\<open>format_social_link\<close> and its helpers from
  \<^verbatim>\<open>openedx/core/djangoapps/user_api/accounts/utils.py\<close>. The setting
  \<^verbatim>\<open>SOCIAL_PLATFORMS\<close> is a parameter, a map from the platform name to its
  \<^verbatim>\<open>url_stub\<close>; a platform that is not configured is a \<^verbatim>\<open>KeyError\<close>. The URL parser of
  the standard library is a parameter too: it raises, or gives the codes of the network
  location and of the path of a link. Both are slices of the link or the empty string, so
  that their concatenation has the kind of the link.
\<close>

subsection \<open>The regular expression\<close>

text \<open>
  \<^verbatim>\<open>re.search('(www\.)?' + re.escape(url_stub) + '(?P<username>.*?)[/]?$', s, re.IGNORECASE)\<close>,
  as the value of the group \<^verbatim>\<open>username\<close> of the leftmost match. Without the flag
  \<^verbatim>\<open>re.UNICODE\<close> only the letters of ASCII lose their case.
\<close>

definition ascii_lower :: "nat \<Rightarrow> nat" where
  "ascii_lower c = (if 65 \<le> c \<and> c \<le> 90 then c + 32 else c)"

definition newline :: nat where
  "newline = 10"

definition slash :: nat where
  "slash = 47"

text \<open>A literal, matched without regard to case at the start of the text; the rest of the text.\<close>

fun match_literal :: "codepoints \<Rightarrow> codepoints \<Rightarrow> codepoints option" where
  "match_literal [] s = Some s"
| "match_literal (p # ps) [] = None"
| "match_literal (p # ps) (c # cs) =
     (if ascii_lower p = ascii_lower c then match_literal ps cs else None)"

text \<open>
  \<^verbatim>\<open>(?P<username>.*?)[/]?$\<close>: the shortest run of characters other than a newline after
  which an optional slash ends the text, or ends it but for its final newline.
\<close>

fun match_username :: "codepoints \<Rightarrow> codepoints option" where
  "match_username [] = Some []"
| "match_username (c # cs) =
     (if c # cs = [slash] \<or> c # cs = [newline] \<or> c # cs = [slash, newline] then Some []
      else if c = newline then None
      else map_option ((#) c) (match_username cs))"

text \<open>The whole pattern at the start of the text: with \<^verbatim>\<open>www.\<close> first, then without.\<close>

definition match_here :: "codepoints \<Rightarrow> codepoints \<Rightarrow> codepoints option" where
  "match_here url_stub s =
     (case (case match_literal (ascii ''www.'') s of
              None \<Rightarrow> None
            | Some r \<Rightarrow> (case match_literal url_stub r of None \<Rightarrow> None | Some r' \<Rightarrow> match_username r')) of
        Some username \<Rightarrow> Some username
      | None \<Rightarrow> (case match_literal url_stub s of None \<Rightarrow> None | Some r \<Rightarrow> match_username r))"

fun re_search :: "codepoints \<Rightarrow> codepoints \<Rightarrow> codepoints option" where
  "re_search url_stub [] = match_here url_stub []"
| "re_search url_stub (c # cs) =
     (case match_here url_stub (c # cs) of
        Some username \<Rightarrow> Some username
      | None \<Rightarrow> re_search url_stub cs)"

subsection \<open>The functions\<close>

definition is_valid_social_username :: "pystring \<Rightarrow> bool" where
  "is_valid_social_username v = (slash \<notin> set (codes_of v))"

text \<open>
  The username that \<^verbatim>\<open>_get_username_from_social_link\<close> takes from a link whose network
  location and path are known: the group of the match, or the whole link when the
  expression does not match.
\<close>

definition extracted_username :: "pystring \<Rightarrow> pystring \<Rightarrow> codepoints \<Rightarrow> codepoints \<Rightarrow> pystring" where
  "extracted_username url_stub link netloc path =
     (case re_search (codes_of url_stub) (netloc @ path) of
        Some u \<Rightarrow> slice_of link u
      | None \<Rightarrow> link)"

definition get_username_from_social_link ::
  "(pystring \<Rightarrow> exn + codepoints \<times> codepoints) \<Rightarrow> (string \<rightharpoonup> pystring) \<Rightarrow> string
     \<Rightarrow> pystring option \<Rightarrow> exn + pystring option" where
  "get_username_from_social_link urlparse SOCIAL_PLATFORMS platform_name new_social_link =
     (case new_social_link of
        None \<Rightarrow> Inr new_social_link
      | Some link \<Rightarrow>
          if not_truthy new_social_link then Inr new_social_link
          else
            (case urlparse link of
               Inl e \<Rightarrow> Inl e
             | Inr (netloc, path) \<Rightarrow>
                 (case SOCIAL_PLATFORMS platform_name of
                    None \<Rightarrow> Inl (KeyError platform_name)
                  | Some url_stub \<Rightarrow>
                      let username = extracted_username url_stub link netloc path
                      in if \<not> is_valid_social_username username then Inr None
                         else Inr (Some username))))"

text \<open>\<^verbatim>\<open>'https://www.{}{}'.format(url_stub, username)\<close>: the template is a byte string.\<close>

definition format_https :: "pystring \<Rightarrow> pystring \<Rightarrow> exn + pystring" where
  "format_https url_stub username =
     (case encode_ascii url_stub of
        Inl e \<Rightarrow> Inl e
      | Inr stub \<Rightarrow>
          (case encode_ascii username of
             Inl e \<Rightarrow> Inl e
           | Inr name \<Rightarrow> Inr (Str (ascii ''https://www.'' @ stub @ name))))"

definition format_social_link ::
  "(pystring \<Rightarrow> exn + codepoints \<times> codepoints) \<Rightarrow> (string \<rightharpoonup> pystring) \<Rightarrow> string
     \<Rightarrow> pystring option \<Rightarrow> exn + pystring option" where
  "format_social_link urlparse SOCIAL_PLATFORMS platform_name new_social_link =
     (if not_truthy new_social_link then Inr new_social_link
      else
        (case SOCIAL_PLATFORMS platform_name of
           None \<Rightarrow> Inl (KeyError platform_name)
         | Some url_stub \<Rightarrow>
             (case get_username_from_social_link urlparse SOCIAL_PLATFORMS platform_name new_social_link of
                Inl e \<Rightarrow> Inl e
              | Inr None \<Rightarrow> Inr None
              | Inr (Some username) \<Rightarrow>
                  if codes_of username = [] then Inr None
                  else (case format_https url_stub username of
                          Inl e \<Rightarrow> Inl e
                        | Inr formatted \<Rightarrow> Inr (Some formatted)))))"

subsection \<open>The URL parser of Python 2.7\<close>

text \<open>
  \<^verbatim>\<open>urlparse.urlparse\<close> of the Python 2.7 standard library, for the two components the
  caller reads: the network location and the path. It looks at the codes of the link
  only. It is used for the concrete links below; the general statements hold for every
  parser.
\<close>

definition scheme_chars :: codepoints where
  "scheme_chars = ascii ''abcdefghijklmnopqrstuvwxyzABCDEFGHIJKLMNOPQRSTUVWXYZ0123456789+-.''"

definition uses_params :: "codepoints list" where
  "uses_params = map ascii [''ftp'', ''hdl'', ''prospero'', ''http'', ''imap'', ''https'', ''shttp'',
                  ''rtsp'', ''rtspu'', ''sip'', ''sips'', ''mms'', [], ''sftp'', ''tel'']"

text \<open>\<^verbatim>\<open>_splitnetloc(url, 2)\<close>: up to the first of \<^verbatim>\<open>/?#\<close> after the two slashes.\<close>

definition splitnetloc :: "codepoints \<Rightarrow> codepoints \<times> codepoints" where
  "splitnetloc url =
     (takeWhile (\<lambda>c. c \<notin> set (ascii ''/?#'')) (drop 2 url),
      dropWhile (\<lambda>c. c \<notin> set (ascii ''/?#'')) (drop 2 url))"

text \<open>What \<^verbatim>\<open>urlsplit\<close> does once the scheme is off: network location, then path.\<close>

definition split_after_scheme :: "codepoints \<Rightarrow> exn + codepoints \<times> codepoints" where
  "split_after_scheme url =
     (let (netloc, rest) = (if take 2 url = ascii ''//'' then splitnetloc url else ([], url));
          path = takeWhile (\<lambda>c. c \<noteq> of_char (CHR ''?'')) (takeWhile (\<lambda>c. c \<noteq> of_char (CHR ''#'')) rest)
      in if (of_char (CHR ''['') \<in> set netloc \<and> of_char (CHR '']'') \<notin> set netloc) \<or>
            (of_char (CHR '']'') \<in> set netloc \<and> of_char (CHR ''['') \<notin> set netloc)
         then Inl (ValueError ''Invalid IPv6 URL'')
         else Inr (netloc, path))"

text \<open>\<^verbatim>\<open>urlsplit\<close>: scheme, network location, path.\<close>

definition urlsplit :: "codepoints \<Rightarrow> exn + codepoints \<times> codepoints \<times> codepoints" where
  "urlsplit url =
     (let front = takeWhile (\<lambda>c. c \<noteq> of_char (CHR '':'')) url;
          rest = drop (length front + 1) url;
          (scheme, url') =
            (if of_char (CHR '':'') \<in> set url \<and> front \<noteq> [] then
               if front = ascii ''http'' then (ascii ''http'', rest)
               else if list_all (\<lambda>c. c \<in> set scheme_chars) front \<and>
                       (rest = [] \<or> list_ex (\<lambda>c. c \<notin> set (ascii ''0123456789'')) rest)
                    then (map ascii_lower front, rest)
                    else ([], url)
             else ([], url))
      in case split_after_scheme url' of
           Inl e \<Rightarrow> Inl e
         | Inr (netloc, path) \<Rightarrow> Inr (scheme, netloc, path))"

text \<open>\<^verbatim>\<open>_splitparams\<close>, its first component: the path without the parameters of its last segment.\<close>

definition splitparams :: "codepoints \<Rightarrow> codepoints" where
  "splitparams url =
     (if slash \<in> set url then
        let last_segment = rev (takeWhile (\<lambda>c. c \<noteq> slash) (rev url));
            front = take (length url - length last_segment) url
        in if of_char (CHR '';'') \<in> set last_segment
           then front @ takeWhile (\<lambda>c. c \<noteq> of_char (CHR '';'')) last_segment
           else url
      else takeWhile (\<lambda>c. c \<noteq> of_char (CHR '';'')) url)"

definition urlparse_py27 :: "pystring \<Rightarrow> exn + codepoints \<times> codepoints" where
  "urlparse_py27 url =
     (case urlsplit (codes_of url) of
        Inl e \<Rightarrow> Inl e
      | Inr (scheme, netloc, path) \<Rightarrow>
          if scheme \<in> set uses_params \<and> of_char (CHR '';'') \<in> set path then Inr (netloc, splitparams path)
          else Inr (netloc, path))"

subsection \<open>Concrete platforms and links\<close>

definition example_platforms :: "string \<rightharpoonup> pystring" where
  "example_platforms =
     [''facebook'' \<mapsto> Str (ascii ''facebook.com/''), ''twitter'' \<mapsto> Str (ascii ''twitter.com/''),
      ''linkedin'' \<mapsto> Str (ascii ''linkedin.com/in/'')]"

text \<open>The \<^verbatim>\<open>unicode\<close> link \<^verbatim>\<open>jos\<close> followed by U+00E9.\<close>

definition example_accented :: pystring where
  "example_accented = Unicode (ascii ''jos'' @ [233])"

section \<open>Memory leak reports\<close>

text \<open>
  Embedding of \<^verbatim>\<open>show_memory_leaks\<close> from
  \<^verbatim>\<open>openedx/core/djangoapps/monitoring_utils/utils.py\<close>. What the function does to the
  outside is a list of effects in order, each call into \<^verbatim>\<open>objgraph\<close> and \<^verbatim>\<open>os\<close> being
  recorded when it is made. What the function reads from \<^verbatim>\<open>objgraph\<close>, \<^verbatim>\<open>os\<close> and its
  own counter \<^verbatim>\<open>indices\<close>, and which of those calls fail, is the record \<open>system\<close>.
  The names of types are byte strings, as \<^verbatim>\<open>objgraph\<close> gives them, and its dictionary
  of new ids gives the empty collection for a name that is no key.
\<close>

datatype 'obj effect =
    LogInfo codepoints
  | Makedirs pystring
  | ShowBackrefs "'obj list" int pystring
  | ShowRefs "'obj list" int pystring

datatype io_call =
    CallMakedirs pystring
  | CallShowBackrefs pystring
  | CallShowRefs pystring

record 'obj system =
  get_new_ids :: "(codepoints \<times> nat list) list"
  new_objects_output :: codepoints
  at_addrs :: "nat list \<Rightarrow> 'obj list"
  getpid :: nat
  path_exists :: "pystring \<Rightarrow> bool"
  indices :: "pystring \<Rightarrow> nat"
  io_error :: "io_call \<Rightarrow> bool"

definition MAX_CONSOLE_ROWS :: int where
  "MAX_CONSOLE_ROWS = 20"

definition MAX_GRAPHED_OBJECT_TYPES :: int where
  "MAX_GRAPHED_OBJECT_TYPES = 5"

definition REFS_DEPTH :: int where
  "REFS_DEPTH = 3"

definition BACK_REFS_DEPTH :: int where
  "BACK_REFS_DEPTH = 8"

definition MAX_OBJECTS_PER_TYPE :: int where
  "MAX_OBJECTS_PER_TYPE = 5"

definition IGNORED_TYPES :: "pystring list" where
  "IGNORED_TYPES = [Str (ascii ''set'')]"

text \<open>The slice \<^verbatim>\<open>xs[:n]\<close>: a negative \<open>n\<close> counts from the end.\<close>

definition slice_to :: "int \<Rightarrow> 'a list \<Rightarrow> 'a list" where
  "slice_to n xs = (if 0 \<le> n then take (nat n) xs else take (length xs - nat (- n)) xs)"

text \<open>
  \<^verbatim>\<open>sorted(items, key=lambda entry: len(entry[1]), reverse=True)\<close>: the sort is stable,
  and with \<^verbatim>\<open>reverse=True\<close> it is the stable ascending sort of the reversed list, reversed.
\<close>

definition sorted_by_count :: "(codepoints \<times> nat list) list \<Rightarrow> (codepoints \<times> nat list) list" where
  "sorted_by_count items = rev (sort_key (\<lambda>entry. length (snd entry)) (rev items))"

text \<open>\<^verbatim>\<open>type_name in ignored_types\<close>.\<close>

definition is_ignored :: "codepoints \<Rightarrow> pystring list \<Rightarrow> bool" where
  "is_ignored type_name ignored_types = list_ex (py_eq (Str type_name)) ignored_types"

text \<open>The decimal digits of a natural number, as a format field gives them.\<close>

function str_nat :: "nat \<Rightarrow> codepoints" where
  "str_nat n = (if n < 10 then [48 + n] else str_nat (n div 10) @ [48 + n mod 10])"
  by pat_completeness auto
termination
  by (relation "measure id") auto

declare str_nat.simps [simp del]

text \<open>
  The name of a graph file without its directory, from the \<^verbatim>\<open>unicode\<close> template
  \<^verbatim>\<open>u'{label}_{pid}_{index}_{type_name}_backrefs.dot'\<close> (or \<^verbatim>\<open>_refs.dot\<close>) filled with
  the codes of the label and of the type name.
\<close>

definition file_name :: "codepoints \<Rightarrow> nat \<Rightarrow> nat \<Rightarrow> codepoints \<Rightarrow> string \<Rightarrow> codepoints" where
  "file_name label pid index type_name kind =
     label @ ascii ''_'' @ str_nat pid @ ascii ''_'' @ str_nat index @ ascii ''_'' @ type_name @
     ascii ''_'' @ ascii kind @ ascii ''.dot''"

text \<open>\<^verbatim>\<open>posixpath.join\<close> of two components, on their codes.\<close>

definition join_codes :: "codepoints \<Rightarrow> codepoints \<Rightarrow> codepoints" where
  "join_codes a b =
     (if take 1 b = [slash] then b
      else if a = [] \<or> last a = slash then a @ b
      else a @ [slash] @ b)"

text \<open>
  \<^verbatim>\<open>os.path.join(a, b)\<close> for a \<^verbatim>\<open>unicode\<close> file name \<open>b\<close>: where the directory is put
  before the name, a directory that is a byte string is decoded.
\<close>

definition path_join :: "pystring \<Rightarrow> codepoints \<Rightarrow> exn + pystring" where
  "path_join a b =
     (if take 1 b = [slash] \<or> codes_of a = [] then Inr (Unicode (join_codes (codes_of a) b))
      else (case decode_ascii a of
              Inl e \<Rightarrow> Inl e
            | Inr dir \<Rightarrow> Inr (Unicode (join_codes dir b))))"

text \<open>
  The path of a graph file, as lines 94 and 98 build it: the template is filled, which
  decodes a label or a type name that is a byte string, and the result is joined to the
  directory. \<open>kind\<close> is \<^verbatim>\<open>backrefs\<close> or \<^verbatim>\<open>refs\<close>.
\<close>

definition graph_path ::
  "pystring \<Rightarrow> pystring \<Rightarrow> nat \<Rightarrow> nat \<Rightarrow> codepoints \<Rightarrow> string \<Rightarrow> exn + pystring" where
  "graph_path graph_directory_path label pid index type_name kind =
     (case decode_ascii label of
        Inl e \<Rightarrow> Inl e
      | Inr l \<Rightarrow>
          (case decode_ascii (Str type_name) of
             Inl e \<Rightarrow> Inl e
           | Inr t \<Rightarrow> path_join graph_directory_path (file_name l pid index t kind)))"

text \<open>
  The path that \<open>graph_path\<close> returns when it returns one: the same concatenation without
  the decoding.
\<close>

definition graph_file :: "pystring \<Rightarrow> pystring \<Rightarrow> nat \<Rightarrow> nat \<Rightarrow> codepoints \<Rightarrow> string \<Rightarrow> pystring" where
  "graph_file graph_directory_path label pid index type_name kind =
     Unicode (join_codes (codes_of graph_directory_path)
                (file_name (codes_of label) pid index type_name kind))"

text \<open>
  \<^verbatim>\<open>log.info('Generated memory graph at {}'.format(path))\<close>: the template is a byte
  string and the path is \<^verbatim>\<open>unicode\<close>, so the path is encoded.
\<close>

definition generated_message :: "pystring \<Rightarrow> exn + codepoints" where
  "generated_message path =
     (case encode_ascii path of
        Inl e \<Rightarrow> Inl e
      | Inr p \<Rightarrow> Inr (ascii ''Generated memory graph at '' @ p))"

text \<open>
  The body of the loop for a type that is not skipped (lines 90 to 100): the effects it
  has, and the exception that ends it, if any. A call into \<^verbatim>\<open>objgraph\<close> that fails is
  recorded, since it may have left its file behind.
\<close>

definition graph_type ::
  "'obj system \<Rightarrow> pystring \<Rightarrow> int \<Rightarrow> int \<Rightarrow> int \<Rightarrow> pystring \<Rightarrow> nat \<Rightarrow> codepoints \<Rightarrow> nat list
     \<Rightarrow> 'obj effect list \<times> exn option" where
  "graph_type sys label refs_depth back_refs_depth max_objects_per_type graph_directory_path index
     type_name object_ids =
     (let objects = slice_to max_objects_per_type (at_addrs sys object_ids)
      in case graph_path graph_directory_path label (getpid sys) index type_name ''backrefs'' of
           Inl e \<Rightarrow> ([], Some e)
         | Inr backrefs \<Rightarrow>
             if io_error sys (CallShowBackrefs backrefs)
             then ([ShowBackrefs objects back_refs_depth backrefs], Some IOError)
             else
               (case generated_message backrefs of
                  Inl e \<Rightarrow> ([ShowBackrefs objects back_refs_depth backrefs], Some e)
                | Inr message \<Rightarrow>
                    (case graph_path graph_directory_path label (getpid sys) index type_name ''refs'' of
                       Inl e \<Rightarrow> ([ShowBackrefs objects back_refs_depth backrefs, LogInfo message], Some e)
                     | Inr refs \<Rightarrow>
                         if io_error sys (CallShowRefs refs)
                         then ([ShowBackrefs objects back_refs_depth backrefs, LogInfo message,
                                ShowRefs objects refs_depth refs], Some IOError)
                         else
                           (case generated_message refs of
                              Inl e \<Rightarrow>
                                ([ShowBackrefs objects back_refs_depth backrefs, LogInfo message,
                                  ShowRefs objects refs_depth refs], Some e)
                            | Inr message' \<Rightarrow>
                                ([ShowBackrefs objects back_refs_depth backrefs, LogInfo message,
                                  ShowRefs objects refs_depth refs, LogInfo message'], None)))))"

text \<open>
  \<^verbatim>\<open>new_ids[type_name]\<close>: the ids of the new objects of a type, none for a name that is
  no key.
\<close>

definition new_object_ids :: "'obj system \<Rightarrow> codepoints \<Rightarrow> nat list" where
  "new_object_ids sys type_name =
     (case map_of (get_new_ids sys) type_name of None \<Rightarrow> [] | Some ids \<Rightarrow> ids)"

text \<open>The \<^verbatim>\<open>for\<close> loop over the slice; an exception ends it.\<close>

fun graph_loop ::
  "'obj system \<Rightarrow> pystring \<Rightarrow> int \<Rightarrow> int \<Rightarrow> int \<Rightarrow> pystring list \<Rightarrow> pystring \<Rightarrow> nat
     \<Rightarrow> (codepoints \<times> nat list) list \<Rightarrow> 'obj effect list \<times> exn option" where
  "graph_loop sys label refs_depth back_refs_depth max_objects_per_type ignored_types
     graph_directory_path index [] = ([], None)"
| "graph_loop sys label refs_depth back_refs_depth max_objects_per_type ignored_types
     graph_directory_path index (item # items) =
     (let type_name = fst item;
          object_ids = new_object_ids sys type_name
      in if is_ignored type_name ignored_types \<or> object_ids = []
         then graph_loop sys label refs_depth back_refs_depth max_objects_per_type ignored_types
                graph_directory_path index items
         else
           (case graph_type sys label refs_depth back_refs_depth max_objects_per_type
                   graph_directory_path index type_name object_ids of
              (effects, Some e) \<Rightarrow> (effects, Some e)
            | (effects, None) \<Rightarrow>
                (case graph_loop sys label refs_depth back_refs_depth max_objects_per_type
                        ignored_types graph_directory_path index items of
                   (effects', raised) \<Rightarrow> (effects @ effects', raised))))"

text \<open>
  \<^verbatim>\<open>show_memory_leaks\<close>: the effects, the counter \<^verbatim>\<open>indices\<close> after the call, and the
  exception raised, if any.
\<close>

definition show_memory_leaks ::
  "'obj system \<Rightarrow> pystring \<Rightarrow> int \<Rightarrow> int \<Rightarrow> int \<Rightarrow> int \<Rightarrow> int \<Rightarrow> pystring list \<Rightarrow> pystring
     \<Rightarrow> 'obj effect list \<times> (pystring \<Rightarrow> nat) \<times> exn option" where
  "show_memory_leaks sys label max_console_rows max_graphed_object_types refs_depth back_refs_depth
     max_objects_per_type ignored_types graph_directory_path =
     (let new_ids = get_new_ids sys;
          logged = [LogInfo (newline # new_objects_output sys)];
          index = indices sys label + 1;
          counted = (indices sys)(label := indices sys label + 1);
          sorted_items = sorted_by_count new_ids
      in if \<not> path_exists sys graph_directory_path \<and> io_error sys (CallMakedirs graph_directory_path)
         then (logged @ [Makedirs graph_directory_path], counted, Some OSError)
         else
           (case graph_loop sys label refs_depth back_refs_depth max_objects_per_type ignored_types
                   graph_directory_path index (slice_to max_graphed_object_types sorted_items) of
              (effects, raised) \<Rightarrow>
                (logged @
                 (if \<not> path_exists sys graph_directory_path then [Makedirs graph_directory_path] else []) @
                 effects,
                 counted, raised)))"

text \<open>The files of a list of effects: the file names given to \<^verbatim>\<open>objgraph\<close>.\<close>

fun graph_files :: "'obj effect list \<Rightarrow> pystring list" where
  "graph_files [] = []"
| "graph_files (ShowBackrefs objects depth filename # effects) = filename # graph_files effects"
| "graph_files (ShowRefs objects depth filename # effects) = filename # graph_files effects"
| "graph_files (_ # effects) = graph_files effects"

subsection \<open>A concrete process\<close>

definition no_io_error :: "io_call \<Rightarrow> bool" where
  "no_io_error call = False"

definition example_system :: "nat system" where
  "example_system =
     \<lparr>get_new_ids = [(ascii ''set'', [1, 2, 3, 4]), (ascii ''list'', [5]), (ascii ''dict'', [6, 7]),
                     (ascii ''tuple'', [])],
      new_objects_output = ascii ''dict 2 +2'',
      at_addrs = (\<lambda>ids. ids),
      getpid = 4242,
      path_exists = (\<lambda>p. True),
      indices = (\<lambda>l. 0),
      io_error = no_io_error\<rparr>"

text \<open>The \<^verbatim>\<open>unicode\<close> label \<^verbatim>\<open>m\<close>, U+00E9, \<^verbatim>\<open>moire\<close>.\<close>

definition example_accented_label :: pystring where
  "example_accented_label = Unicode (ascii ''m'' @ [233] @ ascii ''moire'')"

section \<open>Properties of the entitlement view\<close>

subsection \<open>Auxiliary facts\<close>

lemma falsy_Some [simp]: "falsy (Some s) = (s = [])"
  by (simp add: falsy_def)

lemma falsy_None [simp]: "falsy None"
  by (simp add: falsy_def)

lemma objects_get_uuid: "objects_get (Some u) rows = Some e \<Longrightarrow> uuid e = u"
  by (auto simp: objects_get_def find_Some_iff)

lemma objects_get_save:
  "objects_get (Some u) rows = Some e \<Longrightarrow> uuid e' = uuid e \<Longrightarrow>
     objects_get (Some u) (write_row e' rows) = Some e'"
  unfolding objects_get_def write_row_def
  by (induction rows) (auto split: if_splits)

lemma rollback_tables [simp]:
  "entitlements (rollback w0 w) = entitlements w0"
  "support_details (rollback w0 w) = support_details w0"
  "events (rollback w0 w) = events w"
  by (simp_all add: rollback_def)

text \<open>The run of \<^verbatim>\<open>unexpire_entitlement\<close> on a spent entitlement when no operation fails.\<close>

lemma unexpire_ok:
  assumes "enrollment_course_run e = Some cr" "\<not> db_error env OpUnenroll" "\<not> db_error env OpSave"
  shows "unexpire_entitlement env e w =
     (Inr (enrollment_course cr, e\<lparr>expired_at := None, enrollment_course_run := None\<rparr>),
      w\<lparr>entitlements := write_row (e\<lparr>expired_at := None, enrollment_course_run := None\<rparr>) (entitlements w),
        events := events w @
          [ReadCourseRun (enrollment_course cr), SetExpiredAt None, ReadLearner (enrollment_user cr),
           Unenroll (enrollment_user cr) (course_id (enrollment_course cr)) True,
           SetEnrollmentCourseRun None,
           Save (e\<lparr>expired_at := None, enrollment_course_run := None\<rparr>)]\<rparr>)"
  using assms by (simp add: unexpire_entitlement_def unenroll_def save_def emit_def Let_def)

lemma block_ok:
  assumes "enrollment_course_run e = Some cr" "\<not> db_error env OpUnenroll" "\<not> db_error env OpSave"
     "\<not> db_error env OpCreate"
  shows "reinstate_block env su e c w =
     (Inr (e\<lparr>expired_at := None, enrollment_course_run := None\<rparr>),
      w\<lparr>entitlements := write_row (e\<lparr>expired_at := None, enrollment_course_run := None\<rparr>) (entitlements w),
        support_details := support_details w @
          [\<lparr>detail_entitlement = uuid e, detail_reason = LEAVE_SESSION env, detail_comments = c,
            detail_unenrolled_run = Some (enrollment_course cr), detail_support_user = su\<rparr>],
        events := events w @
          [ReadCourseRun (enrollment_course cr), SetExpiredAt None, ReadLearner (enrollment_user cr),
           Unenroll (enrollment_user cr) (course_id (enrollment_course cr)) True,
           SetEnrollmentCourseRun None,
           Save (e\<lparr>expired_at := None, enrollment_course_run := None\<rparr>),
           Create \<lparr>detail_entitlement = uuid e, detail_reason = LEAVE_SESSION env, detail_comments = c,
            detail_unenrolled_run = Some (enrollment_course cr), detail_support_user = su\<rparr>]\<rparr>)"
  using assms by (simp add: reinstate_block_def unexpire_ok objects_create_def emit_def)

lemma reinstate_ok:
  assumes "enrollment_course_run e = Some cr" "\<forall>op. \<not> db_error env op"
  shows "reinstate_entitlement env su e c w =
     (Inr (Response 201 (serializer_data env (e\<lparr>expired_at := None, enrollment_course_run := None\<rparr>))),
      w\<lparr>entitlements := write_row (e\<lparr>expired_at := None, enrollment_course_run := None\<rparr>) (entitlements w),
        support_details := support_details w @
          [\<lparr>detail_entitlement = uuid e, detail_reason = LEAVE_SESSION env, detail_comments = c,
            detail_unenrolled_run = Some (enrollment_course cr), detail_support_user = su\<rparr>],
        events := events w @
          [ReadCourseRun (enrollment_course cr), SetExpiredAt None, ReadLearner (enrollment_user cr),
           Unenroll (enrollment_user cr) (course_id (enrollment_course cr)) True,
           SetEnrollmentCourseRun None,
           Save (e\<lparr>expired_at := None, enrollment_course_run := None\<rparr>),
           Create \<lparr>detail_entitlement = uuid e, detail_reason = LEAVE_SESSION env, detail_comments = c,
            detail_unenrolled_run = Some (enrollment_course cr), detail_support_user = su\<rparr>]\<rparr>)"
  using assms by (simp add: reinstate_entitlement_def atomic_def block_ok HTTP_201_CREATED_def)

lemma update_reinstates:
  assumes "request_data req ''entitlement_uuid'' = Some u" "u \<noteq> []"
    and "request_data req ''reason'' = Some (LEAVE_SESSION env)" "LEAVE_SESSION env \<noteq> []"
    and "objects_get (Some u) (entitlements w) = Some e"
  shows "update env req w =
           reinstate_entitlement env (request_user req) e (request_data req ''comments'') w"
  using assms by (simp add: update_def Let_def)

text \<open>A block that raises leaves both tables as they were.\<close>

lemma atomic_raises_tables:
  "fst (atomic env body w) = Inl x \<Longrightarrow>
     entitlements (snd (atomic env body w)) = entitlements w \<and>
     support_details (snd (atomic env body w)) = support_details w"
  by (auto simp: atomic_def split: prod.splits sum.splits if_splits)

lemma block_raises:
  assumes "enrollment_course_run e = Some cr"
    and "db_error env OpUnenroll \<or> db_error env OpSave \<or> db_error env OpCreate"
  shows "fst (reinstate_block env su e c w) = Inl DatabaseError"
  using assms
  by (auto simp: reinstate_block_def unexpire_entitlement_def unenroll_def save_def
      objects_create_def Let_def)

lemma atomic_block_raises:
  assumes "enrollment_course_run e = Some cr"
    and "db_error env OpUnenroll \<or> db_error env OpSave \<or> db_error env OpCreate \<or> db_error env OpCommit"
  shows "fst (atomic env (reinstate_block env su e c) w) = Inl DatabaseError"
proof (cases "db_error env OpUnenroll \<or> db_error env OpSave \<or> db_error env OpCreate")
  case True
  from block_raises [OF assms(1) True, of su c w] show ?thesis
    by (auto simp: atomic_def split: prod.splits sum.splits)
next
  case False
  with assms(2) have c: "db_error env OpCommit" by blast
  from False have "\<not> db_error env OpUnenroll" "\<not> db_error env OpSave" "\<not> db_error env OpCreate"
    by auto
  from block_ok [OF assms(1) this] c show ?thesis
    by (simp add: atomic_def)
qed

text \<open>Every storage failure inside the block leaves the method through \<^verbatim>\<open>NameError\<close>.\<close>

lemma reinstate_raises:
  assumes "enrollment_course_run e = Some cr"
    and "db_error env OpUnenroll \<or> db_error env OpSave \<or> db_error env OpCreate \<or> db_error env OpCommit"
  shows "fst (reinstate_entitlement env su e c w) = Inl (NameError ''course_uuid'')"
  using atomic_block_raises [OF assms, of su c w]
  by (auto simp: reinstate_entitlement_def assms(1) split: prod.splits sum.splits exn.splits)

lemma missing_fields_concat:
  "missing_fields data fs acc = acc @ concat (map (\<lambda>f. '' '' @ f) (filter (\<lambda>f. falsy (data f)) fs))"
  by (induction fs arbitrary: acc) simp_all

lemma concat_names:
  assumes "f \<in> set fs"
  shows "\<exists>pre post. concat (map (\<lambda>f. '' '' @ f) fs) = pre @ f @ post"
proof -
  from assms obtain xs ys where "fs = xs @ f # ys" by (auto dest: split_list)
  then have "concat (map (\<lambda>f. '' '' @ f) fs) =
      (concat (map (\<lambda>f. '' '' @ f) xs) @ '' '') @ f @ concat (map (\<lambda>f. '' '' @ f) ys)"
    by simp
  then show ?thesis by blast
qed

lemma create_missing:
  assumes "field \<in> set REQUIRED_CREATION_FIELDS" "falsy (request_data req field)"
  shows "create env grant req w =
     (Inr (HttpResponseBadRequest (''The following required fields are missing from the request:'' @
        concat (map (\<lambda>f. '' '' @ f) (filter (\<lambda>f. falsy (request_data req f)) REQUIRED_CREATION_FIELDS)))), w)"
proof -
  from assms have "field \<in> set (filter (\<lambda>f. falsy (request_data req f)) REQUIRED_CREATION_FIELDS)"
    by simp
  then have "filter (\<lambda>f. falsy (request_data req f)) REQUIRED_CREATION_FIELDS \<noteq> []"
    by (metis empty_iff empty_set)
  then have "concat (map (\<lambda>f. '' '' @ f)
      (filter (\<lambda>f. falsy (request_data req f)) REQUIRED_CREATION_FIELDS)) \<noteq> []"
    by (cases "filter (\<lambda>f. falsy (request_data req f)) REQUIRED_CREATION_FIELDS") simp_all
  then show ?thesis
    by (simp add: create_def missing_fields_concat Let_def)
qed

subsection \<open>Reinstatement\<close>

text \<open>
  C1. A request to reinstate (reason \<^verbatim>\<open>LEAVE_SESSION\<close>) an entitlement that is spent on a
  course run, with no storage failure, answers 201 with the serialized entitlement; read
  again, the entitlement has no expiry and no enrollment; and the support details are the
  old ones followed by exactly one new row, which carries the entitlement, the reason
  \<^verbatim>\<open>LEAVE_SESSION\<close>, the comments of the request, the course run that was left and the
  support user who asked.
\<close>

theorem reinstate_success:
  assumes req: "request_data req ''entitlement_uuid'' = Some u" "u \<noteq> []"
      "request_data req ''reason'' = Some (LEAVE_SESSION env)" "LEAVE_SESSION env \<noteq> []"
    and found: "objects_get (Some u) (entitlements w) = Some e"
    and spent: "enrollment_course_run e = Some cr"
    and ok: "\<forall>op. \<not> db_error env op"
  shows "fst (update env req w) =
           Inr (Response 201 (serializer_data env (e\<lparr>expired_at := None, enrollment_course_run := None\<rparr>)))
       \<and> objects_get (Some u) (entitlements (snd (update env req w))) =
           Some (e\<lparr>expired_at := None, enrollment_course_run := None\<rparr>)
       \<and> support_details (snd (update env req w)) = support_details w @
           [\<lparr>detail_entitlement = u, detail_reason = LEAVE_SESSION env,
             detail_comments = request_data req ''comments'',
             detail_unenrolled_run = Some (enrollment_course cr),
             detail_support_user = request_user req\<rparr>]"
proof -
  have u: "uuid e = u" using found by (rule objects_get_uuid)
  have "objects_get (Some u)
      (write_row (e\<lparr>expired_at := None, enrollment_course_run := None\<rparr>) (entitlements w))
        = Some (e\<lparr>expired_at := None, enrollment_course_run := None\<rparr>)"
    using found by (rule objects_get_save) simp
  then show ?thesis
    by (simp add: update_reinstates [OF req found] reinstate_ok [OF spent ok] u)
qed

theorem reinstate_success_witness:
  "fst (update (example_env never) (example_request ''E1'' ''LEAVE'') example_world) =
     Inr (Response 201 ''E1'')
   \<and> objects_get (Some ''E1'')
       (entitlements (snd (update (example_env never) (example_request ''E1'' ''LEAVE'') example_world))) =
     Some example_reinstated
   \<and> support_details (snd (update (example_env never) (example_request ''E1'' ''LEAVE'') example_world)) =
     [example_detail]"
  using reinstate_success [of "example_request ''E1'' ''LEAVE''" "''E1''" "example_env never"
      example_world example_entitlement example_run]
  by (simp add: example_run_def example_entitlement_def example_world_def example_env_def
      example_reinstated_def example_detail_def example_request_def never_def objects_get_def)

text \<open>
  C2. When a storage operation of the reinstatement raises a database error (the
  unenrollment, the update of the entitlement, the insert of the support detail or the
  commit), the stored entitlements are what they were, so the expiry and the enrollment
  of the entitlement are unchanged, and no support detail was added.
\<close>

theorem reinstate_failure_rolls_back:
  assumes "enrollment_course_run e = Some cr"
    and "db_error env OpUnenroll \<or> db_error env OpSave \<or> db_error env OpCreate \<or> db_error env OpCommit"
  shows "entitlements (snd (reinstate_entitlement env su e c w)) = entitlements w
       \<and> support_details (snd (reinstate_entitlement env su e c w)) = support_details w"
proof -
  let ?a = "atomic env (reinstate_block env su e c) w"
  have "fst ?a = Inl DatabaseError" using assms by (rule atomic_block_raises)
  from atomic_raises_tables [OF this] this show ?thesis
    by (auto simp: reinstate_entitlement_def assms(1) split: prod.splits sum.splits exn.splits)
qed

theorem reinstate_failure_rolls_back_witness:
  "entitlements (snd (reinstate_entitlement (example_env (only OpCreate)) ''support''
       example_entitlement None example_world)) = [example_entitlement]
   \<and> support_details (snd (reinstate_entitlement (example_env (only OpCreate)) ''support''
       example_entitlement None example_world)) = []"
  using reinstate_failure_rolls_back [of example_entitlement example_run
      "example_env (only OpCreate)" "''support''" None example_world]
  by (simp add: example_run_def example_entitlement_def example_world_def example_env_def only_def)

text \<open>
  C3. Reinstating an entitlement that is not spent on a course run answers 400 with a
  message that names the entitlement as not spent, and the world is the one before the
  call: no unenrollment, no change of the entitlement, no support detail.
\<close>

theorem not_spent_is_rejected:
  assumes "enrollment_course_run e = None"
  shows "reinstate_entitlement env su e c w =
      (Inr (HttpResponseBadRequest
              (''Entitlement '' @ format_entitlement env e @ '' has not been spent on a course run.'')), w)"
  using assms by (simp add: reinstate_entitlement_def)

theorem not_spent_is_rejected_witness:
  "reinstate_entitlement (example_env never) ''support'' example_reinstated None example_world =
     (Inr (HttpResponseBadRequest ''Entitlement E1 has not been spent on a course run.''), example_world)"
  using not_spent_is_rejected [of example_reinstated "example_env never" "''support''" None example_world]
  by (simp add: example_run_def example_entitlement_def example_world_def example_env_def
      example_reinstated_def never_def)

text \<open>
  C4. The specification expects a 400 response naming the entitlement and the course when
  the transaction fails. On the example entitlement, with the update of the entitlement
  failing, and also with the commit failing, the method raises \<^verbatim>\<open>NameError\<close> instead:
  the handler of the database error reads names that are not bound. The tables are rolled
  back; the unenrollment call has been made.
\<close>

theorem database_error_escapes_as_NameError:
  "reinstate_entitlement (example_env (only OpSave)) ''support'' example_entitlement
      (Some ''reinstated per policy'') example_world
   = (Inl (NameError ''course_uuid''),
      example_world\<lparr>events :=
        [ReadCourseRun \<lparr>course_id = ''R1''\<rparr>, SetExpiredAt None, ReadLearner ''alice'',
         Unenroll ''alice'' ''R1'' True, SetEnrollmentCourseRun None]\<rparr>)
   \<and> fst (reinstate_entitlement (example_env (only OpCommit)) ''support'' example_entitlement
      (Some ''reinstated per policy'') example_world) = Inl (NameError ''course_uuid'')"
  by (simp add: reinstate_entitlement_def atomic_def reinstate_block_def unexpire_entitlement_def
      unenroll_def save_def write_row_def objects_create_def emit_def rollback_def
      example_run_def example_entitlement_def example_world_def example_env_def only_def Let_def)

text \<open>
  C5. The specification expects every authenticated update request to be answered with
  201 or 400. A request for the example entitlement whose reason is present but is not
  \<^verbatim>\<open>LEAVE_SESSION\<close> falls off the end of \<^verbatim>\<open>update\<close>: the view returns no response, and
  the world is unchanged.
\<close>

theorem other_reason_gets_no_response:
  "update (example_env never) (example_request ''E1'' ''OTHER'') example_world =
     (Inr NoResponse, example_world)"
  by (simp add: update_def example_run_def example_entitlement_def example_world_def example_env_def
      example_request_def never_def objects_get_def Let_def)

text \<open>
  C6, as the code has it. On a spent entitlement with no storage failure the
  reinstatement runs, in this order: read the course run of the enrollment; clear the
  expiry on the entitlement in memory; read the learner of the enrollment; call the
  unenrollment for that learner and run with the refund skipped; detach the enrollment;
  save the entitlement; create the support detail. The expiry is cleared before the
  unenrollment and before the learner is read; both fields reach the store only with the
  save, after the unenrollment.
\<close>

theorem reinstate_order:
  assumes "enrollment_course_run e = Some cr" "\<forall>op. \<not> db_error env op"
  shows "events (snd (reinstate_entitlement env su e c w)) = events w @
     [ReadCourseRun (enrollment_course cr),
      SetExpiredAt None,
      ReadLearner (enrollment_user cr),
      Unenroll (enrollment_user cr) (course_id (enrollment_course cr)) True,
      SetEnrollmentCourseRun None,
      Save (e\<lparr>expired_at := None, enrollment_course_run := None\<rparr>),
      Create \<lparr>detail_entitlement = uuid e, detail_reason = LEAVE_SESSION env, detail_comments = c,
              detail_unenrolled_run = Some (enrollment_course cr), detail_support_user = su\<rparr>]"
  by (simp add: reinstate_ok [OF assms])

theorem reinstate_order_witness:
  "events (snd (reinstate_entitlement (example_env never) ''support'' example_entitlement
       (Some ''reinstated per policy'') example_world)) =
     [ReadCourseRun \<lparr>course_id = ''R1''\<rparr>,
      SetExpiredAt None,
      ReadLearner ''alice'',
      Unenroll ''alice'' ''R1'' True,
      SetEnrollmentCourseRun None,
      Save example_reinstated,
      Create example_detail]"
  using reinstate_order [of example_entitlement example_run "example_env never" "''support''"
      "Some ''reinstated per policy''" example_world]
  by (simp add: example_run_def example_entitlement_def example_world_def example_env_def
      example_reinstated_def example_detail_def never_def)

text \<open>
  C6, as the specification states it, fails on the example: the log of the run is not the
  stated order, and its first four entries show the expiry cleared before the learner is
  read and the unenrollment is called.
\<close>

theorem stated_order_counterexample:
  "events (snd (reinstate_entitlement (example_env never) ''support'' example_entitlement
       (Some ''reinstated per policy'') example_world)) \<noteq>
     stated_order example_run example_reinstated example_detail
   \<and> take 4 (events (snd (reinstate_entitlement (example_env never) ''support'' example_entitlement
       (Some ''reinstated per policy'') example_world))) =
     [ReadCourseRun \<lparr>course_id = ''R1''\<rparr>, SetExpiredAt None, ReadLearner ''alice'',
      Unenroll ''alice'' ''R1'' True]"
  by (simp add: reinstate_entitlement_def atomic_def reinstate_block_def unexpire_entitlement_def
      unenroll_def save_def write_row_def objects_create_def emit_def rollback_def
      example_run_def example_entitlement_def example_world_def example_env_def
      example_reinstated_def example_detail_def never_def
      stated_order_def Let_def
      HTTP_201_CREATED_def)

subsection \<open>Validation\<close>

text \<open>
  C7. Every response to a failed validation names what was wrong. In \<^verbatim>\<open>update\<close>: when
  \<^verbatim>\<open>entitlement_uuid\<close> or \<^verbatim>\<open>reason\<close> is missing, the answer is 400 and its message names a
  field that is missing, namely \<^verbatim>\<open>entitlement_uuid\<close> when that is missing and \<^verbatim>\<open>reason\<close>
  otherwise (the fields are checked in this order); with both present, an identifier that
  resolves to no entitlement gives 400 naming that identifier. In \<^verbatim>\<open>create\<close>: each of the
  four required fields that is missing is named in the 400 answer, whose message lists
  all missing fields.
\<close>

theorem validation_failures_name_offender:
  "(falsy (request_data req ''entitlement_uuid'') \<or> falsy (request_data req ''reason'') \<longrightarrow>
      (\<exists>field. (field = ''entitlement_uuid'' \<or> field = ''reason'') \<and> falsy (request_data req field) \<and>
         update env req w = (Inr (HttpResponseBadRequest (''The field '' @ field @ '' is required.'')), w)))
 \<and> (falsy (request_data req ''entitlement_uuid'') \<longrightarrow>
      update env req w = (Inr (HttpResponseBadRequest ''The field entitlement_uuid is required.''), w))
 \<and> (\<not> falsy (request_data req ''entitlement_uuid'') \<and> falsy (request_data req ''reason'') \<longrightarrow>
      update env req w = (Inr (HttpResponseBadRequest ''The field reason is required.''), w))
 \<and> (\<not> falsy (request_data req ''entitlement_uuid'') \<and> \<not> falsy (request_data req ''reason'') \<and>
    objects_get (request_data req ''entitlement_uuid'') (entitlements w) = None \<longrightarrow>
      update env req w =
        (Inr (HttpResponseBadRequest
           (''Could not find entitlement '' @ format_value (request_data req ''entitlement_uuid'') @
            '' for update'')), w))
 \<and> (\<forall>field \<in> set REQUIRED_CREATION_FIELDS. falsy (request_data req field) \<longrightarrow>
      create env grant req w =
        (Inr (HttpResponseBadRequest
           (''The following required fields are missing from the request:'' @
            concat (map (\<lambda>f. '' '' @ f)
              (filter (\<lambda>f. falsy (request_data req f)) REQUIRED_CREATION_FIELDS)))), w)
      \<and> (\<exists>pre post. create env grant req w = (Inr (HttpResponseBadRequest (pre @ field @ post)), w)))"
proof (intro conjI impI ballI)
  fix field assume f: "field \<in> set REQUIRED_CREATION_FIELDS" "falsy (request_data req field)"
  then have "field \<in> set (filter (\<lambda>f. falsy (request_data req f)) REQUIRED_CREATION_FIELDS)" by simp
  from concat_names [OF this] obtain pre post where
    "concat (map (\<lambda>f. '' '' @ f) (filter (\<lambda>f. falsy (request_data req f)) REQUIRED_CREATION_FIELDS)) =
       pre @ field @ post"
    by blast
  with create_missing [OF f, of env grant w]
  have "create env grant req w =
     (Inr (HttpResponseBadRequest
        ((''The following required fields are missing from the request:'' @ pre) @ field @ post)), w)"
    by simp
  then show "\<exists>pre post. create env grant req w = (Inr (HttpResponseBadRequest (pre @ field @ post)), w)"
    by blast
  from create_missing [OF f, of env grant w]
  show "create env grant req w =
        (Inr (HttpResponseBadRequest
           (''The following required fields are missing from the request:'' @
            concat (map (\<lambda>f. '' '' @ f)
              (filter (\<lambda>f. falsy (request_data req f)) REQUIRED_CREATION_FIELDS)))), w)" .
next
  assume m: "falsy (request_data req ''entitlement_uuid'') \<or> falsy (request_data req ''reason'')"
  show "\<exists>field. (field = ''entitlement_uuid'' \<or> field = ''reason'') \<and> falsy (request_data req field) \<and>
         update env req w = (Inr (HttpResponseBadRequest (''The field '' @ field @ '' is required.'')), w)"
  proof (cases "falsy (request_data req ''entitlement_uuid'')")
    case True
    then have "update env req w =
        (Inr (HttpResponseBadRequest (''The field '' @ ''entitlement_uuid'' @ '' is required.'')), w)"
      by (simp add: update_def Let_def)
    with True show ?thesis by blast
  next
    case False
    with m have r: "falsy (request_data req ''reason'')" by simp
    with False have "update env req w =
        (Inr (HttpResponseBadRequest (''The field '' @ ''reason'' @ '' is required.'')), w)"
      by (simp add: update_def Let_def)
    with r show ?thesis by blast
  qed
qed (simp_all add: update_def Let_def)

theorem validation_failures_name_offender_witness:
  "update (example_env never) empty_request example_world =
     (Inr (HttpResponseBadRequest ''The field entitlement_uuid is required.''), example_world)
   \<and> update (example_env never) uuid_only_request example_world =
     (Inr (HttpResponseBadRequest ''The field reason is required.''), example_world)
   \<and> update (example_env never) (example_request ''E9'' ''LEAVE'') example_world =
     (Inr (HttpResponseBadRequest ''Could not find entitlement E9 for update''), example_world)
   \<and> create (example_env never) example_grant uuid_only_request example_world =
     (Inr (HttpResponseBadRequest
        ''The following required fields are missing from the request: username_or_email course_uuid reason mode''),
      example_world)"
  using validation_failures_name_offender [of empty_request "example_env never" example_world example_grant]
    validation_failures_name_offender [of uuid_only_request "example_env never" example_world example_grant]
    validation_failures_name_offender [of "example_request ''E9'' ''LEAVE''" "example_env never"
      example_world example_grant]
  by (simp add: example_run_def example_entitlement_def example_world_def example_env_def
      example_request_def never_def empty_request_def uuid_only_request_def example_grant_def
      objects_get_def REQUIRED_CREATION_FIELDS_def format_value_def)

subsection \<open>Two reinstatements of one entitlement\<close>

text \<open>The two steps are \<^verbatim>\<open>update\<close>.\<close>

lemma update_in_two_steps:
  "update env request w = update_finish env request (update_lookup env request w) w"
  by (simp add: update_def update_lookup_def update_finish_def Let_def split: option.splits)

lemma unenroll_calls_append: "unenroll_calls (xs @ ys) = unenroll_calls xs @ unenroll_calls ys"
  by (induction xs rule: unenroll_calls.induct) simp_all

text \<open>A request to reinstate an entitlement that is read with no course run.\<close>

lemma not_spent_update:
  assumes "request_data req ''entitlement_uuid'' = Some u" "u \<noteq> []"
    and "request_data req ''reason'' = Some (LEAVE_SESSION env)" "LEAVE_SESSION env \<noteq> []"
    and "objects_get (Some u) (entitlements w) = Some e" and "enrollment_course_run e = None"
  shows "update env req w =
     (Inr (HttpResponseBadRequest
            (''Entitlement '' @ format_entitlement env e @ '' has not been spent on a course run.'')), w)"
  using assms by (simp add: update_def Let_def reinstate_entitlement_def)

text \<open>
  C8, as the code has it. Two requests to reinstate the same spent entitlement, the
  second of which reads the entitlement after the first has committed, with no storage
  failure: the first answers 201; the second reads the entitlement with no course run and
  answers 400 with the message that the entitlement has not been spent, and changes
  nothing; so the learner is unenrolled once and one support detail is added.
\<close>

theorem serialized_reinstate_once:
  assumes req1: "request_data req1 ''entitlement_uuid'' = Some u" "u \<noteq> []"
      "request_data req1 ''reason'' = Some (LEAVE_SESSION env)" "LEAVE_SESSION env \<noteq> []"
    and req2: "request_data req2 ''entitlement_uuid'' = Some u"
      "request_data req2 ''reason'' = Some (LEAVE_SESSION env)"
    and found: "objects_get (Some u) (entitlements w) = Some e"
    and spent: "enrollment_course_run e = Some cr"
    and ok: "\<forall>op. \<not> db_error env op"
  shows "fst (serial_updates env req1 req2 w) =
           Inr (Response 201 (serializer_data env (e\<lparr>expired_at := None, enrollment_course_run := None\<rparr>)))
       \<and> fst (snd (serial_updates env req1 req2 w)) =
           Inr (HttpResponseBadRequest
                  (''Entitlement '' @
                   format_entitlement env (e\<lparr>expired_at := None, enrollment_course_run := None\<rparr>) @
                   '' has not been spent on a course run.''))
       \<and> snd (update env req1 w) = snd (snd (serial_updates env req1 req2 w))
       \<and> unenroll_calls (events (snd (snd (serial_updates env req1 req2 w)))) =
           unenroll_calls (events w) @
           [Unenroll (enrollment_user cr) (course_id (enrollment_course cr)) True]
       \<and> support_details (snd (snd (serial_updates env req1 req2 w))) = support_details w @
           [\<lparr>detail_entitlement = u, detail_reason = LEAVE_SESSION env,
             detail_comments = request_data req1 ''comments'',
             detail_unenrolled_run = Some (enrollment_course cr),
             detail_support_user = request_user req1\<rparr>]"
proof -
  let ?e' = "e\<lparr>expired_at := None, enrollment_course_run := None\<rparr>"
  let ?w1 = "snd (update env req1 w)"
  have u: "uuid e = u" using found by (rule objects_get_uuid)
  have first: "update env req1 w =
      reinstate_entitlement env (request_user req1) e (request_data req1 ''comments'') w"
    using req1 found by (rule update_reinstates)
  have r: "fst (update env req1 w) = Inr (Response 201 (serializer_data env ?e'))"
    by (simp add: first reinstate_ok [OF spent ok])
  have tables: "entitlements ?w1 = write_row ?e' (entitlements w)"
    by (simp add: first reinstate_ok [OF spent ok])
  have ev: "unenroll_calls (events ?w1) = unenroll_calls (events w) @
      [Unenroll (enrollment_user cr) (course_id (enrollment_course cr)) True]"
    by (simp add: first reinstate_ok [OF spent ok] unenroll_calls_append)
  have details: "support_details ?w1 = support_details w @
           [\<lparr>detail_entitlement = u, detail_reason = LEAVE_SESSION env,
             detail_comments = request_data req1 ''comments'',
             detail_unenrolled_run = Some (enrollment_course cr),
             detail_support_user = request_user req1\<rparr>]"
    by (simp add: first reinstate_ok [OF spent ok] u)
  have "objects_get (Some u) (write_row ?e' (entitlements w)) = Some ?e'"
    using found by (rule objects_get_save) simp
  then have reread: "objects_get (Some u) (entitlements ?w1) = Some ?e'"
    by (simp add: tables)
  have second: "update env req2 ?w1 =
     (Inr (HttpResponseBadRequest
            (''Entitlement '' @ format_entitlement env ?e' @ '' has not been spent on a course run.'')), ?w1)"
    using req2(1) req1(2) req2(2) req1(4) reread by (rule not_spent_update) simp
  show ?thesis
    by (simp add: serial_updates_def case_prod_beta r second ev details)
qed

theorem serialized_reinstate_once_witness:
  "fst (serial_updates (example_env never) (example_request ''E1'' ''LEAVE'')
         (example_request ''E1'' ''LEAVE'') example_world) = Inr (Response 201 ''E1'')
   \<and> fst (snd (serial_updates (example_env never) (example_request ''E1'' ''LEAVE'')
         (example_request ''E1'' ''LEAVE'') example_world)) =
       Inr (HttpResponseBadRequest ''Entitlement E1 has not been spent on a course run.'')
   \<and> unenroll_calls (events (snd (snd (serial_updates (example_env never) (example_request ''E1'' ''LEAVE'')
         (example_request ''E1'' ''LEAVE'') example_world)))) = [Unenroll ''alice'' ''R1'' True]
   \<and> support_details (snd (snd (serial_updates (example_env never) (example_request ''E1'' ''LEAVE'')
         (example_request ''E1'' ''LEAVE'') example_world))) = [example_detail]"
  using serialized_reinstate_once [of "example_request ''E1'' ''LEAVE''" "''E1''" "example_env never"
      "example_request ''E1'' ''LEAVE''" example_world example_entitlement example_run]
  by (simp add: example_run_def example_entitlement_def example_world_def example_env_def
      example_detail_def example_request_def never_def objects_get_def)

text \<open>
  C8, as stated, fails when the two requests overlap. Nothing in the view serializes them:
  each request tests the object it read. When both have read entitlement \<open>E1\<close> before
  either commits, both answer 201, the learner is unenrolled twice and two support details
  are added.
\<close>

theorem stale_read_counterexample:
  "update_lookup (example_env never) (example_request ''E1'' ''LEAVE'') example_world =
     Inr example_entitlement
   \<and> fst (stale_read_updates (example_env never) (example_request ''E1'' ''LEAVE'')
         (example_request ''E1'' ''LEAVE'') example_world) = Inr (Response 201 ''E1'')
   \<and> fst (snd (stale_read_updates (example_env never) (example_request ''E1'' ''LEAVE'')
         (example_request ''E1'' ''LEAVE'') example_world)) = Inr (Response 201 ''E1'')
   \<and> unenroll_calls (events (snd (snd (stale_read_updates (example_env never)
         (example_request ''E1'' ''LEAVE'') (example_request ''E1'' ''LEAVE'') example_world)))) =
       [Unenroll ''alice'' ''R1'' True, Unenroll ''alice'' ''R1'' True]
   \<and> support_details (snd (snd (stale_read_updates (example_env never)
         (example_request ''E1'' ''LEAVE'') (example_request ''E1'' ''LEAVE'') example_world))) =
       [example_detail, example_detail]"
  by (simp add: stale_read_updates_def update_lookup_def update_finish_def reinstate_entitlement_def
      atomic_def reinstate_block_def unexpire_entitlement_def unenroll_def save_def objects_create_def
      emit_def write_row_def objects_get_def HTTP_201_CREATED_def Let_def
      example_run_def example_entitlement_def example_world_def example_env_def
      example_detail_def example_request_def never_def)

text \<open>The same for every spent entitlement when no storage operation fails.\<close>

lemma stale_read_both_succeed:
  assumes req1: "request_data req1 ''entitlement_uuid'' = Some u" "u \<noteq> []"
      "request_data req1 ''reason'' = Some (LEAVE_SESSION env)" "LEAVE_SESSION env \<noteq> []"
    and req2: "request_data req2 ''entitlement_uuid'' = Some u"
      "request_data req2 ''reason'' = Some (LEAVE_SESSION env)"
    and found: "objects_get (Some u) (entitlements w) = Some e"
    and spent: "enrollment_course_run e = Some cr"
    and ok: "\<forall>op. \<not> db_error env op"
  shows "fst (stale_read_updates env req1 req2 w) =
           Inr (Response 201 (serializer_data env (e\<lparr>expired_at := None, enrollment_course_run := None\<rparr>)))
       \<and> fst (snd (stale_read_updates env req1 req2 w)) =
           Inr (Response 201 (serializer_data env (e\<lparr>expired_at := None, enrollment_course_run := None\<rparr>)))
       \<and> unenroll_calls (events (snd (snd (stale_read_updates env req1 req2 w)))) =
           unenroll_calls (events w) @
           [Unenroll (enrollment_user cr) (course_id (enrollment_course cr)) True,
            Unenroll (enrollment_user cr) (course_id (enrollment_course cr)) True]"
  using req1 req2 found
  by (simp add: stale_read_updates_def update_lookup_def update_finish_def Let_def
      reinstate_ok [OF spent ok] unenroll_calls_append)

section \<open>Properties of the social links\<close>

subsection \<open>Auxiliary facts\<close>

lemma encode_ascii_codes: "encode_ascii s = Inr cs \<Longrightarrow> cs = codes_of s"
  by (cases s) (auto split: if_splits)

lemma codes_of_slice_of [simp]: "codes_of (slice_of s cs) = cs"
  by (cases s) simp_all

lemma parse_canonical:
  "urlparse_py27 (Str (ascii ''https://www.facebook.com/foo'')) =
     Inr (ascii ''www.facebook.com'', ascii ''/foo'')"
  by (simp add: urlparse_py27_def urlsplit_def split_after_scheme_def splitnetloc_def
      splitparams_def scheme_chars_def uses_params_def ascii_lower_def ascii_def slash_def Let_def)

lemma parse_bracket:
  "urlparse_py27 (Str (ascii ''http://[/foo'')) = Inl (ValueError ''Invalid IPv6 URL'')"
  by (simp add: urlparse_py27_def urlsplit_def split_after_scheme_def splitnetloc_def
      splitparams_def scheme_chars_def uses_params_def ascii_lower_def ascii_def slash_def Let_def)

lemma parse_plain:
  "urlparse_py27 (Str (ascii ''facebook.com/jane/'')) = Inr ([], ascii ''facebook.com/jane/'')"
  by (simp add: urlparse_py27_def urlsplit_def split_after_scheme_def splitnetloc_def
      splitparams_def scheme_chars_def uses_params_def ascii_lower_def ascii_def slash_def Let_def)

lemma parse_two_segments:
  "urlparse_py27 (Str (ascii ''foo/bar'')) = Inr ([], ascii ''foo/bar'')"
  by (simp add: urlparse_py27_def urlsplit_def split_after_scheme_def splitnetloc_def
      splitparams_def scheme_chars_def uses_params_def ascii_lower_def ascii_def slash_def Let_def)

lemma parse_accented:
  "urlparse_py27 example_accented = Inr ([], ascii ''jos'' @ [233])"
  by (simp add: urlparse_py27_def urlsplit_def split_after_scheme_def splitnetloc_def
      splitparams_def scheme_chars_def uses_params_def ascii_lower_def ascii_def slash_def Let_def
      example_accented_def)

lemma search_canonical:
  "re_search (ascii ''facebook.com/'') (ascii ''www.facebook.com'' @ ascii ''/foo'') = Some (ascii ''foo'')"
  by (simp add: match_here_def ascii_lower_def newline_def slash_def ascii_def)

lemma search_plain:
  "re_search (ascii ''facebook.com/'') (ascii ''facebook.com/jane/'') = Some (ascii ''jane'')"
  by (simp add: match_here_def ascii_lower_def newline_def slash_def ascii_def)

lemma search_two_segments:
  "re_search (ascii ''facebook.com/'') (ascii ''foo/bar'') = None"
  by (simp add: match_here_def ascii_lower_def newline_def slash_def ascii_def)

lemma search_accented:
  "re_search (ascii ''facebook.com/'') (ascii ''jos'' @ [233]) = None"
  by (simp add: match_here_def ascii_lower_def newline_def slash_def ascii_def)

subsection \<open>The formatted link\<close>

text \<open>
  C9, as the code has it. For a configured platform and a non-empty link that the URL
  parser parses, where the \<^verbatim>\<open>url_stub\<close> and the extracted username are byte strings or
  have ASCII characters only: \<^verbatim>\<open>format_social_link\<close> returns \<^verbatim>\<open>None\<close> when no valid
  username can be extracted, that is when the extracted username is empty or contains
  \<^verbatim>\<open>/\<close>, and otherwise returns exactly \<^verbatim>\<open>https://www.\<close> followed by the \<^verbatim>\<open>url_stub\<close>
  and the username, which contains no \<^verbatim>\<open>/\<close>. The link is returned as it was given only
  when it already is such a string. For a platform that is not configured a non-empty
  link raises \<^verbatim>\<open>KeyError\<close>. A falsy link (\<^verbatim>\<open>None\<close> or the empty string) is returned
  unchanged, for every platform name.
\<close>

theorem format_social_link_result:
  "(SOCIAL_PLATFORMS platform_name = Some url_stub \<and> codes_of link \<noteq> [] \<and>
    urlparse link = Inr (netloc, path) \<and>
    encode_ascii url_stub = Inr stub \<and>
    encode_ascii (extracted_username url_stub link netloc path) = Inr username \<longrightarrow>
      format_social_link urlparse SOCIAL_PLATFORMS platform_name (Some link) =
        (if username = [] \<or> slash \<in> set username then Inr None
         else Inr (Some (Str (ascii ''https://www.'' @ stub @ username)))))
 \<and> (SOCIAL_PLATFORMS platform_name = Some url_stub \<and> codes_of link \<noteq> [] \<and>
    format_social_link urlparse SOCIAL_PLATFORMS platform_name (Some link) = Inr (Some formatted) \<and>
    codes_of formatted = codes_of link \<longrightarrow>
      (\<exists>username. slash \<notin> set username \<and>
         codes_of link = ascii ''https://www.'' @ codes_of url_stub @ username))
 \<and> (SOCIAL_PLATFORMS platform_name = None \<and> codes_of link \<noteq> [] \<longrightarrow>
      format_social_link urlparse SOCIAL_PLATFORMS platform_name (Some link) =
        Inl (KeyError platform_name))
 \<and> format_social_link urlparse SOCIAL_PLATFORMS platform_name None = Inr None
 \<and> (codes_of link = [] \<longrightarrow>
      format_social_link urlparse SOCIAL_PLATFORMS platform_name (Some link) = Inr (Some link))"
proof (intro conjI impI)
  assume h: "SOCIAL_PLATFORMS platform_name = Some url_stub \<and> codes_of link \<noteq> [] \<and>
    urlparse link = Inr (netloc, path) \<and>
    encode_ascii url_stub = Inr stub \<and>
    encode_ascii (extracted_username url_stub link netloc path) = Inr username"
  then have u: "username = codes_of (extracted_username url_stub link netloc path)"
    by (auto dest: encode_ascii_codes)
  from h show "format_social_link urlparse SOCIAL_PLATFORMS platform_name (Some link) =
        (if username = [] \<or> slash \<in> set username then Inr None
         else Inr (Some (Str (ascii ''https://www.'' @ stub @ username))))"
    by (simp add: u format_social_link_def get_username_from_social_link_def not_truthy_def
        is_valid_social_username_def format_https_def Let_def)
next
  assume h: "SOCIAL_PLATFORMS platform_name = Some url_stub \<and> codes_of link \<noteq> [] \<and>
    format_social_link urlparse SOCIAL_PLATFORMS platform_name (Some link) = Inr (Some formatted) \<and>
    codes_of formatted = codes_of link"
  then obtain username where "slash \<notin> set (codes_of username)"
      "format_https url_stub username = Inr formatted"
    by (auto simp: format_social_link_def get_username_from_social_link_def not_truthy_def
        is_valid_social_username_def Let_def
        split: sum.splits option.splits prod.splits if_splits)
  moreover from this(2) have "codes_of formatted = ascii ''https://www.'' @ codes_of url_stub @ codes_of username"
    by (auto simp: format_https_def split: sum.splits dest!: encode_ascii_codes)
  ultimately show "\<exists>username. slash \<notin> set username \<and>
         codes_of link = ascii ''https://www.'' @ codes_of url_stub @ username"
    using h by auto
qed (simp_all add: format_social_link_def not_truthy_def)


theorem format_social_link_result_witness:
  "format_social_link urlparse_py27 example_platforms ''facebook''
       (Some (Str (ascii ''facebook.com/jane/''))) =
     Inr (Some (Str (ascii ''https://www.'' @ ascii ''facebook.com/'' @ ascii ''jane'')))
   \<and> format_social_link urlparse_py27 example_platforms ''facebook'' (Some (Str (ascii ''foo/bar''))) =
     Inr None
   \<and> (\<exists>username. slash \<notin> set username \<and>
         ascii ''https://www.facebook.com/foo'' = ascii ''https://www.'' @ ascii ''facebook.com/'' @ username)
   \<and> format_social_link urlparse_py27 example_platforms ''myspace'' (Some (Str (ascii ''jane''))) =
     Inl (KeyError ''myspace'')
   \<and> format_social_link urlparse_py27 example_platforms ''facebook'' None = Inr None
   \<and> format_social_link urlparse_py27 example_platforms ''facebook'' (Some (Str [])) =
     Inr (Some (Str []))"
proof -
  have "example_platforms ''facebook'' = Some (Str (ascii ''facebook.com/'')) \<and>
      codes_of (Str (ascii ''facebook.com/jane/'')) \<noteq> [] \<and>
      urlparse_py27 (Str (ascii ''facebook.com/jane/'')) = Inr ([], ascii ''facebook.com/jane/'') \<and>
      encode_ascii (Str (ascii ''facebook.com/'')) = Inr (ascii ''facebook.com/'') \<and>
      encode_ascii (extracted_username (Str (ascii ''facebook.com/'')) (Str (ascii ''facebook.com/jane/''))
          [] (ascii ''facebook.com/jane/'')) = Inr (ascii ''jane'')"
    by (simp add: example_platforms_def parse_plain extracted_username_def search_plain
        del: re_search.simps) (simp add: ascii_def)
  with format_social_link_result [where SOCIAL_PLATFORMS = example_platforms
        and platform_name = "''facebook''" and url_stub = "Str (ascii ''facebook.com/'')"
        and link = "Str (ascii ''facebook.com/jane/'')" and urlparse = urlparse_py27
        and netloc = "[]" and path = "ascii ''facebook.com/jane/''"
        and stub = "ascii ''facebook.com/''" and username = "ascii ''jane''"
        and formatted = "Str []"]
  have "format_social_link urlparse_py27 example_platforms ''facebook''
       (Some (Str (ascii ''facebook.com/jane/''))) =
     (if ascii ''jane'' = [] \<or> slash \<in> set (ascii ''jane'') then Inr None
      else Inr (Some (Str (ascii ''https://www.'' @ ascii ''facebook.com/'' @ ascii ''jane''))))"
    by blast
  then have jane: "format_social_link urlparse_py27 example_platforms ''facebook''
       (Some (Str (ascii ''facebook.com/jane/''))) =
     Inr (Some (Str (ascii ''https://www.'' @ ascii ''facebook.com/'' @ ascii ''jane'')))"
    by (simp add: ascii_def slash_def)
  have "example_platforms ''facebook'' = Some (Str (ascii ''facebook.com/'')) \<and>
      codes_of (Str (ascii ''foo/bar'')) \<noteq> [] \<and>
      urlparse_py27 (Str (ascii ''foo/bar'')) = Inr ([], ascii ''foo/bar'') \<and>
      encode_ascii (Str (ascii ''facebook.com/'')) = Inr (ascii ''facebook.com/'') \<and>
      encode_ascii (extracted_username (Str (ascii ''facebook.com/'')) (Str (ascii ''foo/bar''))
          [] (ascii ''foo/bar'')) = Inr (ascii ''foo/bar'')"
    by (simp add: example_platforms_def parse_two_segments extracted_username_def
        search_two_segments del: re_search.simps) (simp add: ascii_def)
  with format_social_link_result [where SOCIAL_PLATFORMS = example_platforms
        and platform_name = "''facebook''" and url_stub = "Str (ascii ''facebook.com/'')"
        and link = "Str (ascii ''foo/bar'')" and urlparse = urlparse_py27
        and netloc = "[]" and path = "ascii ''foo/bar''"
        and stub = "ascii ''facebook.com/''" and username = "ascii ''foo/bar''"
        and formatted = "Str []"]
  have "format_social_link urlparse_py27 example_platforms ''facebook''
       (Some (Str (ascii ''foo/bar''))) =
     (if ascii ''foo/bar'' = [] \<or> slash \<in> set (ascii ''foo/bar'') then Inr None
      else Inr (Some (Str (ascii ''https://www.'' @ ascii ''facebook.com/'' @ ascii ''foo/bar''))))"
    by blast
  then have two: "format_social_link urlparse_py27 example_platforms ''facebook''
       (Some (Str (ascii ''foo/bar''))) = Inr None"
    by (simp add: ascii_def slash_def)
  have "example_platforms ''facebook'' = Some (Str (ascii ''facebook.com/'')) \<and>
      codes_of (Str (ascii ''https://www.facebook.com/foo'')) \<noteq> [] \<and>
      format_social_link urlparse_py27 example_platforms ''facebook''
         (Some (Str (ascii ''https://www.facebook.com/foo''))) =
       Inr (Some (Str (ascii ''https://www.'' @ ascii ''facebook.com/'' @ ascii ''foo''))) \<and>
      codes_of (Str (ascii ''https://www.'' @ ascii ''facebook.com/'' @ ascii ''foo'')) =
        codes_of (Str (ascii ''https://www.facebook.com/foo''))"
    by (simp add: format_social_link_def get_username_from_social_link_def not_truthy_def
        is_valid_social_username_def format_https_def extracted_username_def example_platforms_def
        parse_canonical search_canonical del: re_search.simps) (simp add: ascii_def slash_def)
  with format_social_link_result [where SOCIAL_PLATFORMS = example_platforms
        and platform_name = "''facebook''" and url_stub = "Str (ascii ''facebook.com/'')"
        and link = "Str (ascii ''https://www.facebook.com/foo'')" and urlparse = urlparse_py27
        and netloc = "[]" and path = "[]" and stub = "[]" and username = "[]"
        and formatted = "Str (ascii ''https://www.'' @ ascii ''facebook.com/'' @ ascii ''foo'')"]
  have verbatim: "\<exists>username. slash \<notin> set username \<and>
      codes_of (Str (ascii ''https://www.facebook.com/foo'')) =
        ascii ''https://www.'' @ codes_of (Str (ascii ''facebook.com/'')) @ username"
    by blast
  have "example_platforms ''myspace'' = None \<and> codes_of (Str (ascii ''jane'')) \<noteq> []"
    by (simp add: example_platforms_def ascii_def)
  with format_social_link_result [where SOCIAL_PLATFORMS = example_platforms
        and platform_name = "''myspace''" and url_stub = "Str []"
        and link = "Str (ascii ''jane'')" and urlparse = urlparse_py27
        and netloc = "[]" and path = "[]" and stub = "[]" and username = "[]"
        and formatted = "Str []"]
  have unknown: "format_social_link urlparse_py27 example_platforms ''myspace''
      (Some (Str (ascii ''jane''))) = Inl (KeyError ''myspace'')"
    by blast
  from format_social_link_result [where SOCIAL_PLATFORMS = example_platforms
        and platform_name = "''facebook''" and url_stub = "Str []"
        and link = "Str []" and urlparse = urlparse_py27
        and netloc = "[]" and path = "[]" and stub = "[]" and username = "[]"
        and formatted = "Str []"]
  have blank: "format_social_link urlparse_py27 example_platforms ''facebook'' None = Inr None
     \<and> format_social_link urlparse_py27 example_platforms ''facebook'' (Some (Str [])) =
       Inr (Some (Str []))"
    by simp
  from jane two verbatim unknown blank show ?thesis by simp
qed

text \<open>
  C9, as stated, fails. The link is always built anew, but what is built can be the
  input: \<^verbatim>\<open>format_social_link('facebook', 'https://www.facebook.com/foo')\<close> returns that
  very string. And the result is not always \<^verbatim>\<open>None\<close> or a link: the platform
  \<^verbatim>\<open>myspace\<close>, which is not configured, raises \<^verbatim>\<open>KeyError\<close>; the link \<^verbatim>\<open>http://[/foo\<close>
  raises the \<^verbatim>\<open>ValueError\<close> of the URL parser; and the \<^verbatim>\<open>unicode\<close> link \<^verbatim>\<open>jos\<close>, U+00E9
  raises \<^verbatim>\<open>UnicodeEncodeError\<close> where the byte-string template is filled.
\<close>

theorem returned_verbatim_counterexample:
  "format_social_link urlparse_py27 example_platforms ''facebook''
       (Some (Str (ascii ''https://www.facebook.com/foo''))) =
     Inr (Some (Str (ascii ''https://www.facebook.com/foo'')))
   \<and> format_social_link urlparse_py27 example_platforms ''myspace'' (Some (Str (ascii ''foo''))) =
     Inl (KeyError ''myspace'')
   \<and> format_social_link urlparse_py27 example_platforms ''facebook''
       (Some (Str (ascii ''http://[/foo''))) =
     Inl (ValueError ''Invalid IPv6 URL'')
   \<and> format_social_link urlparse_py27 example_platforms ''facebook'' (Some example_accented) =
     Inl UnicodeEncodeError"
  by (simp add: format_social_link_def get_username_from_social_link_def not_truthy_def
      is_valid_social_username_def format_https_def extracted_username_def example_platforms_def
      parse_canonical parse_bracket parse_accented search_canonical search_accented
      del: re_search.simps)
    (simp add: ascii_def slash_def example_accented_def)

section \<open>Properties of the memory leak reports\<close>

subsection \<open>Sorting and slicing\<close>

lemma distinct_map_insort_key:
  "distinct (map g (insort_key f x xs)) = (g x \<notin> g ` set xs \<and> distinct (map g xs))"
  by (induction xs) (auto simp: set_insort_key)

lemma distinct_map_sort_key: "distinct (map g (sort_key f xs)) = distinct (map g xs)"
  by (induction xs) (simp_all add: distinct_map_insort_key)

lemma distinct_sorted_by_count:
  "distinct (map fst (sorted_by_count items)) = distinct (map fst items)"
  by (simp add: sorted_by_count_def rev_map [symmetric] distinct_map_sort_key del: rev_map)

lemma length_slice_to: "0 \<le> n \<Longrightarrow> length (slice_to n xs) \<le> nat n"
  by (simp add: slice_to_def)

lemma distinct_slice_to: "distinct (map f xs) \<Longrightarrow> distinct (map f (slice_to n xs))"
  by (simp add: slice_to_def take_map [symmetric] del: take_map)

subsection \<open>Paths of graph files\<close>

lemma decode_ascii_codes: "decode_ascii s = Inr cs \<Longrightarrow> cs = codes_of s"
  by (cases s) (auto split: if_splits)

lemma path_join_value: "path_join a b = Inr p \<Longrightarrow> p = Unicode (join_codes (codes_of a) b)"
  by (auto simp: path_join_def split: if_splits sum.splits dest!: decode_ascii_codes)

lemma graph_path_value:
  "graph_path d label pid index t kind = Inr p \<Longrightarrow> p = graph_file d label pid index t kind"
  by (auto simp: graph_path_def graph_file_def split: sum.splits if_splits
      dest!: decode_ascii_codes path_join_value)

lemma join_codes_prefix:
  "\<exists>P. \<forall>rest. join_codes d (label @ ascii ''_'' @ rest) = P @ rest"
proof (cases "take 1 (label @ ascii ''_'') = [slash]")
  case True
  then have "\<forall>rest. join_codes d (label @ ascii ''_'' @ rest) = (label @ ascii ''_'') @ rest"
    by (cases label) (auto simp: join_codes_def ascii_def)
  then show ?thesis by blast
next
  case False
  then have *: "\<And>rest. take 1 (label @ ascii ''_'' @ rest) \<noteq> [slash]"
    by (cases label) (auto simp: ascii_def)
  show ?thesis
  proof (cases "d = [] \<or> last d = slash")
    case True
    with * have "\<forall>rest. join_codes d (label @ ascii ''_'' @ rest) = (d @ label @ ascii ''_'') @ rest"
      by (simp add: join_codes_def)
    then show ?thesis by blast
  next
    case False
    with * have "\<forall>rest. join_codes d (label @ ascii ''_'' @ rest) =
        (d @ [slash] @ label @ ascii ''_'') @ rest"
      by (simp add: join_codes_def)
    then show ?thesis by blast
  qed
qed

lemma graph_file_prefix:
  "\<exists>P. \<forall>t k. graph_file d label pid index t k = Unicode (P @ t @ ascii ''_'' @ ascii k @ ascii ''.dot'')"
proof -
  from join_codes_prefix [of "codes_of d" "codes_of label"] obtain P where
    P: "\<And>rest. join_codes (codes_of d) (codes_of label @ ascii ''_'' @ rest) = P @ rest" by blast
  have "\<forall>t k. graph_file d label pid index t k =
      Unicode ((P @ str_nat pid @ ascii ''_'' @ str_nat index @ ascii ''_'') @ t @ ascii ''_'' @ ascii k @ ascii ''.dot'')"
    by (simp add: graph_file_def file_name_def P)
  then show ?thesis by blast
qed

lemma kinds_differ:
  "t @ ascii ''_'' @ ascii ''backrefs'' @ ascii ''.dot'' \<noteq> t' @ ascii ''_'' @ ascii ''refs'' @ ascii ''.dot''"
proof
  assume "t @ ascii ''_'' @ ascii ''backrefs'' @ ascii ''.dot'' = t' @ ascii ''_'' @ ascii ''refs'' @ ascii ''.dot''"
  from arg_cong [OF this, where f = rev] show False by (simp add: ascii_def)
qed

lemma graph_file_inj:
  "graph_file d label pid index t k = graph_file d label pid index t' k \<Longrightarrow> t = t'"
  using graph_file_prefix [of d label pid index] by auto

lemma graph_file_kinds:
  "graph_file d label pid index t ''backrefs'' \<noteq> graph_file d label pid index t' ''refs''"
  using graph_file_prefix [of d label pid index] kinds_differ [of t t'] by auto

subsection \<open>The files of the loop\<close>

lemma distinct_pairs:
  assumes "inj f" "inj g" "\<And>x y. f x \<noteq> g y" "distinct xs"
  shows "distinct (concat (map (\<lambda>t. [f t, g t]) xs))"
  using assms(4)
proof (induction xs)
  case Nil
  then show ?case by simp
next
  case (Cons x xs)
  then show ?case
    using assms(1-3) by (auto simp: inj_eq) (metis assms(3))
qed

lemma pairs_member:
  "x \<in> set (concat (map (\<lambda>t. [f t, g t]) xs)) \<Longrightarrow> \<exists>t \<in> set xs. x = f t \<or> x = g t"
  by (induction xs) auto

lemma graph_files_append: "graph_files (xs @ ys) = graph_files xs @ graph_files ys"
  by (induction xs rule: graph_files.induct) simp_all

text \<open>The files of one type are its backrefs file and then its refs file, or a first part of them.\<close>

lemma graph_type_files:
  "\<exists>rest. graph_files (fst (graph_type sys label rd bd mo d index t ids)) @ rest =
      [graph_file d label (getpid sys) index t ''backrefs'',
       graph_file d label (getpid sys) index t ''refs'']"
  by (auto simp: graph_type_def Let_def split: sum.splits dest!: graph_path_value)

lemma graph_type_files_complete:
  "snd (graph_type sys label rd bd mo d index t ids) = None \<Longrightarrow>
     graph_files (fst (graph_type sys label rd bd mo d index t ids)) =
      [graph_file d label (getpid sys) index t ''backrefs'',
       graph_file d label (getpid sys) index t ''refs'']"
  by (auto simp: graph_type_def Let_def split: sum.splits if_splits dest!: graph_path_value)


lemma graph_loop_files:
  "\<exists>rest. graph_files (fst (graph_loop sys label rd bd mo ignored_types d index items)) @ rest =
      concat (map (\<lambda>t. [graph_file d label (getpid sys) index t ''backrefs'',
                         graph_file d label (getpid sys) index t ''refs''])
        (filter (\<lambda>t. \<not> is_ignored t ignored_types \<and> new_object_ids sys t \<noteq> [])
           (map fst items)))"
proof (induction items)
  case Nil
  show ?case by simp
next
  case (Cons item items)
  let ?t = "fst item"
  let ?pair = "\<lambda>t. [graph_file d label (getpid sys) index t ''backrefs'',
                     graph_file d label (getpid sys) index t ''refs'']"
  let ?keep = "\<lambda>t. \<not> is_ignored t ignored_types \<and> new_object_ids sys t \<noteq> []"
  from Cons.IH obtain rest where
    rest: "graph_files (fst (graph_loop sys label rd bd mo ignored_types d index items)) @ rest =
      concat (map ?pair (filter ?keep (map fst items)))" by blast
  show ?case
  proof (cases "?keep ?t")
    case False
    then have "graph_loop sys label rd bd mo ignored_types d index (item # items) =
        graph_loop sys label rd bd mo ignored_types d index items"
      by (auto simp: Let_def)
    with False rest show ?thesis
      by (intro exI [where x = rest]) (auto simp del: graph_loop.simps)
  next
    case True
    define once where "once = graph_type sys label rd bd mo d index ?t (new_object_ids sys ?t)"
    show ?thesis
    proof (cases "snd once")
      case None
      then have files: "graph_files (fst once) = ?pair ?t"
        unfolding once_def by (rule graph_type_files_complete)
      from True None have "fst (graph_loop sys label rd bd mo ignored_types d index (item # items)) =
          fst once @ fst (graph_loop sys label rd bd mo ignored_types d index items)"
        unfolding once_def
        by (simp add: Let_def case_prod_beta split: option.splits)
      with True files rest show ?thesis
        by (intro exI [where x = rest]) (simp add: graph_files_append del: graph_loop.simps)
    next
      case (Some e)
      from graph_type_files [of sys label rd bd mo d index ?t "new_object_ids sys ?t"]
      obtain rest' where files: "graph_files (fst once) @ rest' = ?pair ?t"
        unfolding once_def by blast
      from True Some have "fst (graph_loop sys label rd bd mo ignored_types d index (item # items)) =
          fst once"
        unfolding once_def
        by (simp add: Let_def case_prod_beta split: option.splits)
      then have "graph_files (fst (graph_loop sys label rd bd mo ignored_types d index (item # items))) @
          (rest' @ concat (map ?pair (filter ?keep (map fst items)))) =
          ?pair ?t @ concat (map ?pair (filter ?keep (map fst items)))"
        using files by (simp del: graph_loop.simps)
      with True show ?thesis
        by (intro exI [where x = "rest' @ concat (map ?pair (filter ?keep (map fst items)))"])
          (simp del: graph_loop.simps)
    qed
  qed
qed

lemma show_memory_leaks_files:
  "\<exists>rest. graph_files (fst (show_memory_leaks sys label mr mg rd bd mo ignored_types d)) @ rest =
      concat (map (\<lambda>t. [graph_file d label (getpid sys) (indices sys label + 1) t ''backrefs'',
                         graph_file d label (getpid sys) (indices sys label + 1) t ''refs''])
        (filter (\<lambda>t. \<not> is_ignored t ignored_types \<and> new_object_ids sys t \<noteq> [])
           (map fst (slice_to mg (sorted_by_count (get_new_ids sys))))))"
proof (cases "\<not> path_exists sys d \<and> io_error sys (CallMakedirs d)")
  case True
  then show ?thesis
    by (simp add: show_memory_leaks_def Let_def)
next
  case False
  from graph_loop_files [of sys label rd bd mo ignored_types d "indices sys label + 1"
      "slice_to mg (sorted_by_count (get_new_ids sys))"]
  show ?thesis
    using False by (auto simp: show_memory_leaks_def Let_def case_prod_beta graph_files_append)
qed

lemma prefix_distinct: "xs @ rest = ys \<Longrightarrow> distinct ys \<Longrightarrow> distinct xs"
  by auto

lemma two_of_distinct:
  assumes "distinct files"
  shows "length (filter (\<lambda>f. f = a \<or> f = b) files) \<le> 2"
proof -
  have "distinct (filter (\<lambda>f. f = a \<or> f = b) files)"
    using assms by (rule distinct_filter)
  then have "length (filter (\<lambda>f. f = a \<or> f = b) files) = card (set (filter (\<lambda>f. f = a \<or> f = b) files))"
    by (rule distinct_card [symmetric])
  also have "\<dots> \<le> card {a, b}"
    by (rule card_mono) auto
  also have "\<dots> \<le> 2"
    by (simp add: card_insert_if)
  finally show ?thesis .
qed

subsection \<open>The example process\<close>

lemma str_nat_4242: "str_nat 4242 = ascii ''4242''"
  by (simp add: str_nat.simps ascii_def)

lemma str_nat_1: "str_nat (Suc 0) = ascii ''1''"
  by (simp add: str_nat.simps ascii_def)

lemma example_files:
  "graph_files (fst (show_memory_leaks example_system (Unicode (ascii ''memory_leaks''))
       MAX_CONSOLE_ROWS MAX_GRAPHED_OBJECT_TYPES REFS_DEPTH BACK_REFS_DEPTH MAX_OBJECTS_PER_TYPE
       IGNORED_TYPES (Unicode (ascii ''/tmp/graphs'')))) =
     [Unicode (ascii ''/tmp/graphs/memory_leaks_4242_1_dict_backrefs.dot''),
      Unicode (ascii ''/tmp/graphs/memory_leaks_4242_1_dict_refs.dot''),
      Unicode (ascii ''/tmp/graphs/memory_leaks_4242_1_list_backrefs.dot''),
      Unicode (ascii ''/tmp/graphs/memory_leaks_4242_1_list_refs.dot'')]"
  by (simp add: show_memory_leaks_def example_system_def slice_to_def sorted_by_count_def
      graph_type_def graph_path_def path_join_def join_codes_def file_name_def generated_message_def
      new_object_ids_def is_ignored_def no_io_error_def str_nat_4242 str_nat_1 Let_def
      MAX_CONSOLE_ROWS_def MAX_GRAPHED_OBJECT_TYPES_def REFS_DEPTH_def BACK_REFS_DEPTH_def
      MAX_OBJECTS_PER_TYPE_def IGNORED_TYPES_def ascii_def slash_def)

subsection \<open>The graph files of one call\<close>

text \<open>
  C10, as the code has it. When \<^verbatim>\<open>max_graphed_object_types\<close> is not negative (the keys of
  the dictionary of new ids being distinct, as the keys of a dictionary are), the graph
  files of a call to \<^verbatim>\<open>show_memory_leaks\<close> are files of at most
  \<^verbatim>\<open>max_graphed_object_types\<close> object types: there is a list of distinct type names, no
  longer than the maximum, such that every file is the backrefs graph or the refs graph
  of one of them. For every type name at most two of the files are its graphs. And for a
  type name that is listed in \<^verbatim>\<open>ignored_types\<close> or whose list of new object ids is empty,
  neither graph is among the files.
\<close>

theorem show_memory_leaks_graphs:
  assumes keys: "distinct (map fst (get_new_ids sys))"
    and max: "0 \<le> max_graphed_object_types"
  shows "\<exists>types.
      distinct types \<and> int (length types) \<le> max_graphed_object_types
    \<and> (\<forall>file \<in> set (graph_files (fst (show_memory_leaks sys label max_console_rows
            max_graphed_object_types refs_depth back_refs_depth max_objects_per_type ignored_types
            graph_directory_path))).
          \<exists>t \<in> set types.
            file = graph_file graph_directory_path label (getpid sys) (indices sys label + 1) t ''backrefs''
          \<or> file = graph_file graph_directory_path label (getpid sys) (indices sys label + 1) t ''refs'')
    \<and> (\<forall>t. length (filter (\<lambda>file.
            file = graph_file graph_directory_path label (getpid sys) (indices sys label + 1) t ''backrefs''
          \<or> file = graph_file graph_directory_path label (getpid sys) (indices sys label + 1) t ''refs'')
          (graph_files (fst (show_memory_leaks sys label max_console_rows
            max_graphed_object_types refs_depth back_refs_depth max_objects_per_type ignored_types
            graph_directory_path)))) \<le> 2)
    \<and> (\<forall>t. is_ignored t ignored_types \<or> new_object_ids sys t = [] \<longrightarrow>
          t \<notin> set types
        \<and> graph_file graph_directory_path label (getpid sys) (indices sys label + 1) t ''backrefs''
            \<notin> set (graph_files (fst (show_memory_leaks sys label max_console_rows max_graphed_object_types
                refs_depth back_refs_depth max_objects_per_type ignored_types graph_directory_path)))
        \<and> graph_file graph_directory_path label (getpid sys) (indices sys label + 1) t ''refs''
            \<notin> set (graph_files (fst (show_memory_leaks sys label max_console_rows max_graphed_object_types
                refs_depth back_refs_depth max_objects_per_type ignored_types graph_directory_path))))"
proof -
  define b where "b = (\<lambda>t. graph_file graph_directory_path label (getpid sys) (indices sys label + 1) t ''backrefs'')"
  define r where "r = (\<lambda>t. graph_file graph_directory_path label (getpid sys) (indices sys label + 1) t ''refs'')"
  define slice where "slice = slice_to max_graphed_object_types (sorted_by_count (get_new_ids sys))"
  define types where
    "types = filter (\<lambda>t. \<not> is_ignored t ignored_types \<and> new_object_ids sys t \<noteq> []) (map fst slice)"
  define files where "files = graph_files (fst (show_memory_leaks sys label max_console_rows
     max_graphed_object_types refs_depth back_refs_depth max_objects_per_type ignored_types
     graph_directory_path))"
  have "\<exists>rest. files @ rest = concat (map (\<lambda>t. [b t, r t]) types)"
    unfolding files_def b_def r_def types_def slice_def by (rule show_memory_leaks_files)
  then obtain rest where pre: "files @ rest = concat (map (\<lambda>t. [b t, r t]) types)" by blast
  have "distinct (map fst slice)"
    unfolding slice_def using keys by (intro distinct_slice_to) (simp add: distinct_sorted_by_count)
  then have d: "distinct types"
    unfolding types_def by (rule distinct_filter)
  have "length types \<le> length (map fst slice)"
    unfolding types_def by (rule length_filter_le)
  also have "\<dots> = length slice" by simp
  also have "\<dots> \<le> nat max_graphed_object_types"
    unfolding slice_def using max by (rule length_slice_to)
  finally have l: "int (length types) \<le> max_graphed_object_types"
    using max by linarith
  have binj: "b t = b t' \<Longrightarrow> t = t'" for t t'
    unfolding b_def by (rule graph_file_inj)
  have rinj: "r t = r t' \<Longrightarrow> t = t'" for t t'
    unfolding r_def by (rule graph_file_inj)
  have br: "b t \<noteq> r t'" for t t'
    unfolding b_def r_def by (rule graph_file_kinds)
  have "inj b"
    by (rule injI) (rule binj)
  moreover have "inj r"
    by (rule injI) (rule rinj)
  ultimately have "distinct (concat (map (\<lambda>t. [b t, r t]) types))"
    using br d by (rule distinct_pairs)
  with pre have df: "distinct files"
    by (rule prefix_distinct)
  have sub: "set files \<subseteq> set (concat (map (\<lambda>t. [b t, r t]) types))"
    unfolding pre [symmetric] by simp
  have member: "\<exists>t \<in> set types. f = b t \<or> f = r t" if "f \<in> set files" for f
    using that sub by (blast dest: pairs_member)
  have two: "length (filter (\<lambda>file. file = b t \<or> file = r t) files) \<le> 2" for t
    using df by (rule two_of_distinct)
  have skipped: "t \<notin> set types \<and> b t \<notin> set files \<and> r t \<notin> set files"
    if "is_ignored t ignored_types \<or> new_object_ids sys t = []" for t
  proof -
    from that have nt: "t \<notin> set types" unfolding types_def by auto
    have "b t \<notin> set files"
    proof
      assume "b t \<in> set files"
      then obtain t' where t': "t' \<in> set types" "b t = b t' \<or> b t = r t'"
        by (blast dest: member)
      then have "t = t'" using binj br by blast
      with nt t' show False by simp
    qed
    moreover have "r t \<notin> set files"
    proof
      assume "r t \<in> set files"
      then obtain t' where t': "t' \<in> set types" "r t = b t' \<or> r t = r t'"
        by (blast dest: member)
      then have "t = t'" using rinj br [of t' t] by auto
      with nt t' show False by simp
    qed
    ultimately show ?thesis using nt by blast
  qed
  have "distinct types \<and> int (length types) \<le> max_graphed_object_types
      \<and> (\<forall>file \<in> set files. \<exists>t \<in> set types. file = b t \<or> file = r t)
      \<and> (\<forall>t. length (filter (\<lambda>file. file = b t \<or> file = r t) files) \<le> 2)
      \<and> (\<forall>t. is_ignored t ignored_types \<or> new_object_ids sys t = [] \<longrightarrow>
            t \<notin> set types \<and> b t \<notin> set files \<and> r t \<notin> set files)"
    using d l member two skipped by (intro conjI allI impI ballI) simp_all
  then show ?thesis
    unfolding files_def b_def r_def by (rule exI [where x = types])
qed


theorem show_memory_leaks_graphs_witness:
  "distinct (map fst (get_new_ids example_system)) \<and> 0 \<le> MAX_GRAPHED_OBJECT_TYPES
   \<and> (\<exists>types. distinct types \<and> int (length types) \<le> MAX_GRAPHED_OBJECT_TYPES
        \<and> (\<exists>t \<in> set types.
              Unicode (ascii ''/tmp/graphs/memory_leaks_4242_1_dict_backrefs.dot'') =
                graph_file (Unicode (ascii ''/tmp/graphs'')) (Unicode (ascii ''memory_leaks'')) 4242 1 t ''backrefs''
            \<or> Unicode (ascii ''/tmp/graphs/memory_leaks_4242_1_dict_backrefs.dot'') =
                graph_file (Unicode (ascii ''/tmp/graphs'')) (Unicode (ascii ''memory_leaks'')) 4242 1 t ''refs'')
        \<and> length (filter (\<lambda>file.
              file = graph_file (Unicode (ascii ''/tmp/graphs'')) (Unicode (ascii ''memory_leaks'')) 4242 1
                       (ascii ''dict'') ''backrefs''
            \<or> file = graph_file (Unicode (ascii ''/tmp/graphs'')) (Unicode (ascii ''memory_leaks'')) 4242 1
                       (ascii ''dict'') ''refs'')
             [Unicode (ascii ''/tmp/graphs/memory_leaks_4242_1_dict_backrefs.dot''),
              Unicode (ascii ''/tmp/graphs/memory_leaks_4242_1_dict_refs.dot''),
              Unicode (ascii ''/tmp/graphs/memory_leaks_4242_1_list_backrefs.dot''),
              Unicode (ascii ''/tmp/graphs/memory_leaks_4242_1_list_refs.dot'')]) \<le> 2
        \<and> ascii ''set'' \<notin> set types \<and> ascii ''tuple'' \<notin> set types)"
proof -
  have keys: "distinct (map fst (get_new_ids example_system))"
    by (simp add: example_system_def ascii_def)
  have max: "0 \<le> MAX_GRAPHED_OBJECT_TYPES"
    by (simp add: MAX_GRAPHED_OBJECT_TYPES_def)
  from show_memory_leaks_graphs [OF keys max, of "Unicode (ascii ''memory_leaks'')" MAX_CONSOLE_ROWS
      REFS_DEPTH BACK_REFS_DEPTH MAX_OBJECTS_PER_TYPE IGNORED_TYPES "Unicode (ascii ''/tmp/graphs'')"]
  obtain types where t: "distinct types" "int (length types) \<le> MAX_GRAPHED_OBJECT_TYPES"
    "\<forall>file \<in> set (graph_files (fst (show_memory_leaks example_system (Unicode (ascii ''memory_leaks''))
          MAX_CONSOLE_ROWS MAX_GRAPHED_OBJECT_TYPES REFS_DEPTH BACK_REFS_DEPTH MAX_OBJECTS_PER_TYPE
          IGNORED_TYPES (Unicode (ascii ''/tmp/graphs''))))).
       \<exists>t \<in> set types.
          file = graph_file (Unicode (ascii ''/tmp/graphs'')) (Unicode (ascii ''memory_leaks''))
                   (getpid example_system) (indices example_system (Unicode (ascii ''memory_leaks'')) + 1)
                   t ''backrefs''
        \<or> file = graph_file (Unicode (ascii ''/tmp/graphs'')) (Unicode (ascii ''memory_leaks''))
                   (getpid example_system) (indices example_system (Unicode (ascii ''memory_leaks'')) + 1)
                   t ''refs''"
    "\<forall>t. length (filter (\<lambda>file.
            file = graph_file (Unicode (ascii ''/tmp/graphs'')) (Unicode (ascii ''memory_leaks''))
                   (getpid example_system) (indices example_system (Unicode (ascii ''memory_leaks'')) + 1)
                   t ''backrefs''
          \<or> file = graph_file (Unicode (ascii ''/tmp/graphs'')) (Unicode (ascii ''memory_leaks''))
                   (getpid example_system) (indices example_system (Unicode (ascii ''memory_leaks'')) + 1)
                   t ''refs'')
          (graph_files (fst (show_memory_leaks example_system (Unicode (ascii ''memory_leaks''))
          MAX_CONSOLE_ROWS MAX_GRAPHED_OBJECT_TYPES REFS_DEPTH BACK_REFS_DEPTH MAX_OBJECTS_PER_TYPE
          IGNORED_TYPES (Unicode (ascii ''/tmp/graphs'')))))) \<le> 2"
    "\<forall>t. is_ignored t IGNORED_TYPES \<or> new_object_ids example_system t = [] \<longrightarrow> t \<notin> set types"
    by blast
  have "is_ignored (ascii ''set'') IGNORED_TYPES"
    by (simp add: is_ignored_def IGNORED_TYPES_def)
  moreover have "new_object_ids example_system (ascii ''tuple'') = []"
    by (simp add: new_object_ids_def example_system_def ascii_def)
  ultimately have skipped: "ascii ''set'' \<notin> set types" "ascii ''tuple'' \<notin> set types"
    using t(5) by blast+
  have ids: "getpid example_system = 4242"
    "indices example_system (Unicode (ascii ''memory_leaks'')) + 1 = 1"
    by (simp_all add: example_system_def)
  from t(3) have dict: "\<exists>t \<in> set types.
              Unicode (ascii ''/tmp/graphs/memory_leaks_4242_1_dict_backrefs.dot'') =
                graph_file (Unicode (ascii ''/tmp/graphs'')) (Unicode (ascii ''memory_leaks'')) 4242 1 t ''backrefs''
            \<or> Unicode (ascii ''/tmp/graphs/memory_leaks_4242_1_dict_backrefs.dot'') =
                graph_file (Unicode (ascii ''/tmp/graphs'')) (Unicode (ascii ''memory_leaks'')) 4242 1 t ''refs''"
    unfolding example_files ids by simp
  from t(4) have two: "length (filter (\<lambda>file.
              file = graph_file (Unicode (ascii ''/tmp/graphs'')) (Unicode (ascii ''memory_leaks'')) 4242 1
                       (ascii ''dict'') ''backrefs''
            \<or> file = graph_file (Unicode (ascii ''/tmp/graphs'')) (Unicode (ascii ''memory_leaks'')) 4242 1
                       (ascii ''dict'') ''refs'')
             [Unicode (ascii ''/tmp/graphs/memory_leaks_4242_1_dict_backrefs.dot''),
              Unicode (ascii ''/tmp/graphs/memory_leaks_4242_1_dict_refs.dot''),
              Unicode (ascii ''/tmp/graphs/memory_leaks_4242_1_list_backrefs.dot''),
              Unicode (ascii ''/tmp/graphs/memory_leaks_4242_1_list_refs.dot'')]) \<le> 2"
    unfolding example_files ids by (rule allE)
  from keys max t(1,2) dict two skipped show ?thesis by blast
qed

text \<open>
  C10, as stated, fails for a negative maximum: the slice then drops that many entries
  from the end of the sorted list and keeps the others. With the maximum \<open>- 1\<close> the
  example process gets the files of two types, \<^verbatim>\<open>dict\<close> and \<^verbatim>\<open>list\<close>.
\<close>

theorem negative_maximum_counterexample:
  "graph_files (fst (show_memory_leaks example_system (Unicode (ascii ''memory_leaks''))
       MAX_CONSOLE_ROWS (- 1) REFS_DEPTH BACK_REFS_DEPTH MAX_OBJECTS_PER_TYPE IGNORED_TYPES
       (Unicode (ascii ''/tmp/graphs'')))) =
     [Unicode (ascii ''/tmp/graphs/memory_leaks_4242_1_dict_backrefs.dot''),
      Unicode (ascii ''/tmp/graphs/memory_leaks_4242_1_dict_refs.dot''),
      Unicode (ascii ''/tmp/graphs/memory_leaks_4242_1_list_backrefs.dot''),
      Unicode (ascii ''/tmp/graphs/memory_leaks_4242_1_list_refs.dot'')]
   \<and> snd (snd (show_memory_leaks example_system (Unicode (ascii ''memory_leaks''))
       MAX_CONSOLE_ROWS (- 1) REFS_DEPTH BACK_REFS_DEPTH MAX_OBJECTS_PER_TYPE IGNORED_TYPES
       (Unicode (ascii ''/tmp/graphs'')))) = None
   \<and> \<not> int (length [ascii ''dict'', ascii ''list'']) \<le> - 1"
  by (simp add: show_memory_leaks_def example_system_def slice_to_def sorted_by_count_def
      graph_type_def graph_path_def path_join_def join_codes_def file_name_def generated_message_def
      new_object_ids_def is_ignored_def no_io_error_def str_nat_4242 str_nat_1 Let_def
      MAX_CONSOLE_ROWS_def REFS_DEPTH_def BACK_REFS_DEPTH_def
      MAX_OBJECTS_PER_TYPE_def IGNORED_TYPES_def ascii_def slash_def)

text \<open>
  A call can end between the two graphs of a type. With the \<^verbatim>\<open>unicode\<close> label
  \<^verbatim>\<open>m\<close>, U+00E9, \<^verbatim>\<open>moire\<close> the path of the backrefs graph is not ASCII, and the byte-string
  template of the log message raises \<^verbatim>\<open>UnicodeEncodeError\<close> when that path is put
  into it: the backrefs graph of \<^verbatim>\<open>dict\<close> is the only file.
\<close>

lemma accented_label_one_file:
  "graph_files (fst (show_memory_leaks example_system example_accented_label
       MAX_CONSOLE_ROWS MAX_GRAPHED_OBJECT_TYPES REFS_DEPTH BACK_REFS_DEPTH MAX_OBJECTS_PER_TYPE
       IGNORED_TYPES (Unicode (ascii ''/tmp/graphs'')))) =
     [Unicode (ascii ''/tmp/graphs/m'' @ [233] @ ascii ''moire_4242_1_dict_backrefs.dot'')]
   \<and> snd (snd (show_memory_leaks example_system example_accented_label
       MAX_CONSOLE_ROWS MAX_GRAPHED_OBJECT_TYPES REFS_DEPTH BACK_REFS_DEPTH MAX_OBJECTS_PER_TYPE
       IGNORED_TYPES (Unicode (ascii ''/tmp/graphs'')))) = Some UnicodeEncodeError"
  by (simp add: show_memory_leaks_def example_system_def slice_to_def sorted_by_count_def
      graph_type_def graph_path_def path_join_def join_codes_def file_name_def generated_message_def
      new_object_ids_def is_ignored_def no_io_error_def str_nat_4242 str_nat_1 Let_def
      MAX_CONSOLE_ROWS_def MAX_GRAPHED_OBJECT_TYPES_def REFS_DEPTH_def BACK_REFS_DEPTH_def
      MAX_OBJECTS_PER_TYPE_def IGNORED_TYPES_def example_accented_label_def ascii_def slash_def)

end
